theory Spec2Isabelle
  imports Complex_Main
begin

chapter \<open>The full fine-tuning script and its data modules\<close>

text \<open>
  A shallow embedding of the parts of the repository that its specification speaks
  about: the training loop \<open>fit\<close> of \<open>finetune/full.py\<close> with its argument check
  and learning-rate schedule, the data modules (Alpaca, LIMA, Deita, TinyStories) and
  the checkpoint downloader \<open>scripts/download.py\<close>. Definitions come first, the
  theorems about them follow.
\<close>

section \<open>Python values the model shares\<close>

text \<open>
  Exceptions are values: a function that can raise returns \<open>py_error + 'a\<close>, with
  \<open>Inl\<close> for the exception. Only the exception classes the modelled code can raise
  are listed.
\<close>


datatype py_error =
    KeyError string
  | IndexError
  | StopIteration
  | ZeroDivisionError
  | ValueError string
  | ModuleNotFoundError string
  | TypeError

text \<open>
  \<open>xs[i]\<close> on a Python list: a negative index counts from the end, an index out of
  range raises \<open>IndexError\<close>.
\<close>

definition getitem :: "'a list \<Rightarrow> int \<Rightarrow> py_error + 'a" where
  "getitem xs i =
     (let n = int (length xs); j = (if i < 0 then i + n else i)
      in if j < 0 \<or> n \<le> j then Inl IndexError else Inr (xs ! nat j))"

text \<open>
  \<open>range(i, stop, step)\<close> for a positive step, as the \<open>for\<close> loops of the
  data modules use it.
\<close>

function py_range :: "int \<Rightarrow> int \<Rightarrow> int \<Rightarrow> int list" where
  "py_range i stop step =
     (if 0 < step \<and> i < stop then i # py_range (i + step) stop step else [])"
  by pat_completeness auto
termination
  by (relation "measure (\<lambda>(i, stop, step). nat (stop - i))") auto

declare py_range.simps [simp del]

section \<open>Alpaca: \<open>prompt_template\<close>\<close>

text \<open>
  \<open>lit_gpt/datasets/alpaca.py\<close>, \<open>prompt_template(example)\<close>. The example is a
  Python dict from strings to strings, a map here; reading a key that is absent raises
  \<open>KeyError\<close>. The f-string reads \<open>example['instruction']\<close> before
  \<open>example['input']\<close>.

  The condition of the \<open>if\<close> is the name \<open>input\<close>. The function has no local
  or parameter of that name, so it is the builtin function \<open>input\<close>, and a function
  object is truthy.
\<close>

definition builtin_input_truthy :: bool where
  "builtin_input_truthy = True"

definition input_variant :: "string \<Rightarrow> string \<Rightarrow> string" where
  "input_variant instruction inp =
     ''Below is an instruction that describes a task, paired with an input that provides further context. ''
     @ ''Write a response that appropriately completes the request.\<newline>\<newline>''
     @ ''### Instruction:\<newline>'' @ instruction
     @ ''\<newline>\<newline>### Input:\<newline>'' @ inp
     @ ''\<newline>\<newline>### Response:\<newline>''"

definition no_input_variant :: "string \<Rightarrow> string" where
  "no_input_variant instruction =
     ''Below is an instruction that describes a task. ''
     @ ''Write a response that appropriately completes the request.\<newline>\<newline>''
     @ ''### Instruction:\<newline>'' @ instruction
     @ ''\<newline>\<newline>### Response:\<newline>''"

definition lookup :: "(string \<rightharpoonup> string) \<Rightarrow> string \<Rightarrow> py_error + string" where
  "lookup d k = (case d k of None \<Rightarrow> Inl (KeyError k) | Some v \<Rightarrow> Inr v)"

definition prompt_template :: "(string \<rightharpoonup> string) \<Rightarrow> py_error + string" where
  "prompt_template example =
     (if builtin_input_truthy then
        (case lookup example ''instruction'' of
           Inl e \<Rightarrow> Inl e
         | Inr instruction \<Rightarrow>
             (case lookup example ''input'' of
                Inl e \<Rightarrow> Inl e
              | Inr inp \<Rightarrow> Inr (input_variant instruction inp)))
      else
        (case lookup example ''instruction'' of
           Inl e \<Rightarrow> Inl e
         | Inr instruction \<Rightarrow> Inr (no_input_variant instruction)))"

section \<open>Deita and LIMA: \<open>format_dataset\<close>\<close>

text \<open>
  \<open>lit_gpt/data/deita.py\<close> and \<open>lit_gpt/datasets/lima.py\<close> each define
  \<open>format_dataset\<close>. The two bodies are the same loop; they differ in how a turn
  gives its text: Deita reads \<open>convo[i]["content"]\<close>, LIMA reads \<open>convo[i]\<close>.
  The loop is written once, over the selector \<open>sel\<close>. A formatted record is the
  Python dict literal, kept as an association list in the order the keys are written.
\<close>

type_synonym sft_record = "(string \<times> string) list"

record message =
  role :: string
  content :: string

record deita_entry =
  messages :: "message list"

record lima_entry =
  conversations :: "string list"

fun multi_turn_records :: "('t \<Rightarrow> string) \<Rightarrow> 't list \<Rightarrow> int list \<Rightarrow> py_error + sft_record list" where
  "multi_turn_records sel convo [] = Inr []"
| "multi_turn_records sel convo (i # rest) =
     (case getitem convo i of
        Inl e \<Rightarrow> Inl e
      | Inr a \<Rightarrow>
          (case getitem convo (i + 1) of
             Inl e \<Rightarrow> Inl e
           | Inr b \<Rightarrow>
               (case multi_turn_records sel convo rest of
                  Inl e \<Rightarrow> Inl e
                | Inr rs \<Rightarrow>
                    Inr ([(''instruction'', sel a), (''input'', ''''), (''output'', sel b)] # rs))))"

definition first_turn_record :: "('t \<Rightarrow> string) \<Rightarrow> 't list \<Rightarrow> py_error + sft_record list" where
  "first_turn_record sel convo =
     (case getitem convo 0 of
        Inl e \<Rightarrow> Inl e
      | Inr a \<Rightarrow>
          (case getitem convo 1 of
             Inl e \<Rightarrow> Inl e
           | Inr b \<Rightarrow> Inr [[(''instruction'', sel a), (''input'', ''''), (''output'', sel b)]]))"

fun format_conversations ::
  "('t \<Rightarrow> string) \<Rightarrow> 't list list \<Rightarrow> bool \<Rightarrow> py_error + sft_record list" where
  "format_conversations sel [] multi = Inr []"
| "format_conversations sel (convo # rest) multi =
     (case (if multi
            then multi_turn_records sel convo (py_range 0 (int (length convo) - 1) 2)
            else first_turn_record sel convo) of
        Inl e \<Rightarrow> Inl e
      | Inr rs \<Rightarrow>
          (case format_conversations sel rest multi of
             Inl e \<Rightarrow> Inl e
           | Inr others \<Rightarrow> Inr (rs @ others)))"

definition format_dataset_deita :: "deita_entry list \<Rightarrow> bool \<Rightarrow> py_error + sft_record list" where
  "format_dataset_deita dataset_partition include_multi_turn_conversations =
     format_conversations content (map messages dataset_partition) include_multi_turn_conversations"

definition format_dataset_lima :: "lima_entry list \<Rightarrow> bool \<Rightarrow> py_error + sft_record list" where
  "format_dataset_lima dataset_partition include_multi_turn_conversations =
     format_conversations (\<lambda>t. t) (map conversations dataset_partition) include_multi_turn_conversations"

text \<open>
  The words of the contract, to compare the code with: a record with the three keys, and
  the records of the consecutive (even index, odd index) turn pairs of one conversation.
\<close>

definition sft :: "string \<Rightarrow> string \<Rightarrow> sft_record" where
  "sft a b = [(''instruction'', a), (''input'', ''''), (''output'', b)]"

definition turn_pairs :: "('t \<Rightarrow> string) \<Rightarrow> 't list \<Rightarrow> sft_record list" where
  "turn_pairs sel convo =
     map (\<lambda>k. sft (sel (convo ! (2 * k))) (sel (convo ! (2 * k + 1)))) [0..<length convo div 2]"

section \<open>The checkpoint downloader: \<open>download_from_hub\<close>\<close>

text \<open>
  \<open>scripts/download.py\<close>. \<open>needle in haystack\<close> on Python strings is the substring
  test.
\<close>

fun starts_with :: "string \<Rightarrow> string \<Rightarrow> bool" where
  "starts_with [] s = True"
| "starts_with (c # cs) [] = False"
| "starts_with (c # cs) (d # ds) = (c = d \<and> starts_with cs ds)"

fun py_in :: "string \<Rightarrow> string \<Rightarrow> bool" where
  "py_in needle [] = (needle = [])"
| "py_in needle (c # cs) = (starts_with needle (c # cs) \<or> py_in needle cs)"

text \<open>
  What the function reads besides its arguments: the module constant
  \<open>_SAFETENSORS_AVAILABLE\<close> (whether the \<open>safetensors\<close> package can be imported, and
  the text it gives when it cannot), and the names built from \<open>lit_gpt.config.configs\<close>,
  a module that is not among the sources and is taken as given.
\<close>

record download_env =
  safetensors_available :: bool
  safetensors_text :: string
  config_options :: "string list"

text \<open>The keyword arguments of the one call of \<open>snapshot_download\<close>.\<close>

record snapshot_call =
  repo :: string
  local_dir :: string
  local_dir_use_symlinks :: bool
  resume_download :: bool
  allow_patterns :: "string list"
  token :: "string option"
  revision :: "string option"

text \<open>
  How a call ends when it does not raise: after printing the options (nothing was
  downloaded), or after \<open>snapshot_download\<close> was called; the flag says whether the
  conversion of the \<open>.safetensors\<close> files follows the download.
\<close>

datatype download_outcome =
    Printed "string list"
  | Downloaded snapshot_call bool

definition hf_model_revision_map :: "string \<rightharpoonup> string" where
  "hf_model_revision_map =
     [''microsoft/phi-1_5'' \<mapsto> ''24f9ea14df973a49a0d87c16d04df88d90067468'',
      ''microsoft/phi-2'' \<mapsto> ''834565c23f9b28b96ccbeabe614dd906b6db551a'']"

text \<open>\<open>checkpoint_dir / repo_id\<close> of \<open>pathlib\<close>: an absolute right operand replaces the left one.\<close>

definition path_join :: "string \<Rightarrow> string \<Rightarrow> string" where
  "path_join dir p = (if starts_with ''/'' p then p else dir @ ''/'' @ p)"

text \<open>\<open>not access_token\<close>: the token is \<open>None\<close> or the empty string.\<close>

definition falsy_token :: "string option \<Rightarrow> bool" where
  "falsy_token t = (case t of None \<Rightarrow> True | Some s \<Rightarrow> s = [])"

definition authentication_message :: "string \<Rightarrow> string" where
  "authentication_message repo_id =
     repo_id @ '' requires authentication, please set the `HF_TOKEN=your_token` environment''
     @ '' variable or pass --access_token=your_token. You can find your token by visiting''
     @ '' https://huggingface.co/settings/tokens''"

definition download_from_hub ::
  "download_env \<Rightarrow> string option \<Rightarrow> string option \<Rightarrow> bool \<Rightarrow> bool \<Rightarrow> string
     \<Rightarrow> py_error + download_outcome" where
  "download_from_hub env repo_id access_token from_safetensors tokenizer_only checkpoint_dir =
     (case repo_id of
        None \<Rightarrow>
          Inr (Printed (''Please specify --repo_id <repo_id>. Available values:''
                         # config_options env))
      | Some r \<Rightarrow>
          if (py_in ''meta-llama'' r \<or> py_in ''falcon-180'' r) \<and> falsy_token access_token
          then Inl (ValueError (authentication_message r))
          else
            let download_files = [''tokenizer*'', ''generation_config.json''];
                download_files =
                  (if py_in ''Qwen'' r then download_files @ [''qwen.tiktoken''] else download_files)
            in
              if \<not> tokenizer_only then
                if from_safetensors then
                  if \<not> safetensors_available env
                  then Inl (ModuleNotFoundError (safetensors_text env))
                  else Inr (Downloaded
                         \<lparr>repo = r, local_dir = path_join checkpoint_dir r,
                          local_dir_use_symlinks = False, resume_download = True,
                          allow_patterns = download_files @ [''*.safetensors''],
                          token = access_token, revision = hf_model_revision_map r\<rparr>
                         from_safetensors)
                else Inr (Downloaded
                       \<lparr>repo = r, local_dir = path_join checkpoint_dir r,
                        local_dir_use_symlinks = False, resume_download = True,
                        allow_patterns = download_files @ [''*.bin*''],
                        token = access_token, revision = hf_model_revision_map r\<rparr>
                       from_safetensors)
              else if from_safetensors then
                Inl (ValueError
                  ''`--from_safetensors=True` won't have an effect with `--tokenizer_only=True`'')
              else Inr (Downloaded
                     \<lparr>repo = r, local_dir = path_join checkpoint_dir r,
                      local_dir_use_symlinks = False, resume_download = True,
                      allow_patterns = download_files,
                      token = access_token, revision = hf_model_revision_map r\<rparr>
                     from_safetensors))"

text \<open>The cases of the contract, in the words it uses.\<close>

definition gated_repo :: "string \<Rightarrow> bool" where
  "gated_repo r = (py_in ''meta-llama'' r \<or> py_in ''falcon-180'' r)"

definition is_value_error :: "py_error + 'a \<Rightarrow> bool" where
  "is_value_error res = (case res of Inl (ValueError m) \<Rightarrow> True | _ \<Rightarrow> False)"

definition is_download :: "py_error + download_outcome \<Rightarrow> bool" where
  "is_download res = (case res of Inr (Downloaded c b) \<Rightarrow> True | _ \<Rightarrow> False)"

section \<open>The data modules\<close>

text \<open>
  The four modules are classes; each is a record of its attributes, with the name of
  the module in front of the attribute (\<open>self.batch_size\<close> of \<open>Deita\<close> is
  \<open>deita_batch_size\<close>). The tokenizer is an object of \<open>lit_gpt/tokenizer.py\<close>, which
  is not among the sources: its type is a parameter, \<open>'tok\<close>.

  What a module hands to the framework is described, not run. A
  \<open>torch.utils.data.DataLoader\<close> is the record of the arguments it is built with;
  \<open>dl_generator\<close> is the seed of \<open>torch.Generator().manual_seed(seed)\<close> when the call
  passes \<open>generator=\<close>, and \<open>None\<close> when it does not. The collate function is
  \<open>sft_collate_fn\<close> with the two keyword arguments the call fixes. An \<open>SFTDataset\<close> is
  the record of its constructor's arguments but one: the \<open>prompt_template\<close> argument is
  a function of that name, the one of \<open>lit_gpt/datasets/alpaca.py\<close> in Alpaca and LIMA
  and the one of \<open>lit_gpt/data/alpaca.py\<close>, which is not among the sources, in Deita.
\<close>

record 'tok sft_dataset =
  sd_data :: "sft_record list"
  sd_tokenizer :: "'tok option"
  sd_max_seq_length :: int
  sd_mask_prompt :: bool
  sd_ignore_index :: int

record 'tok data_loader =
  dl_dataset :: "'tok sft_dataset option"
  dl_batch_size :: int
  dl_shuffle :: bool
  dl_generator :: "int option"
  dl_num_workers :: int
  dl_collate_max_seq_length :: int
  dl_collate_ignore_index :: int

subsection \<open>Deita (\<open>lit_gpt/data/deita.py\<close>)\<close>

record 'tok deita =
  deita_mask_prompt :: bool
  deita_ignore_index :: int
  deita_seed :: int
  deita_num_workers :: int
  deita_include_multiturn_conversations :: bool
  deita_download_dir :: string
  deita_repo_id :: string
  deita_tokenizer :: "'tok option"
  deita_batch_size :: int
  deita_max_seq_length :: int
  deita_train_dataset :: "'tok sft_dataset option"
  deita_test_dataset :: "'tok sft_dataset option"

text \<open>The dataclass with its defaults; the last five fields are \<open>init=False\<close>.\<close>

definition deita_default :: "'tok deita" where
  "deita_default =
     \<lparr>deita_mask_prompt = False, deita_ignore_index = - 1, deita_seed = 42, deita_num_workers = 4,
      deita_include_multiturn_conversations = False, deita_download_dir = ''./data/deita'',
      deita_repo_id = ''HuggingFaceH4/deita-10k-v0-sft'', deita_tokenizer = None,
      deita_batch_size = 1, deita_max_seq_length = - 1, deita_train_dataset = None,
      deita_test_dataset = None\<rparr>"

definition deita_connect :: "'tok deita \<Rightarrow> 'tok option \<Rightarrow> int \<Rightarrow> int option \<Rightarrow> 'tok deita" where
  "deita_connect self tokenizer batch_size max_seq_length =
     self\<lparr>deita_tokenizer := tokenizer,
          deita_batch_size := batch_size,
          deita_max_seq_length := (case max_seq_length of None \<Rightarrow> - 1 | Some m \<Rightarrow> m)\<rparr>"

text \<open>
  \<open>setup\<close> loads the two splits with \<open>datasets.load_dataset\<close>; what it loads is the
  argument \<open>dataset\<close>, the pair of \<open>train_sft\<close> and \<open>test_sft\<close>.
\<close>

definition deita_setup ::
  "'tok deita \<Rightarrow> deita_entry list \<times> deita_entry list \<Rightarrow> py_error + 'tok deita" where
  "deita_setup self dataset =
     (case format_dataset_deita (fst dataset) (deita_include_multiturn_conversations self) of
        Inl e \<Rightarrow> Inl e
      | Inr train_data \<Rightarrow>
          (case format_dataset_deita (snd dataset) (deita_include_multiturn_conversations self) of
             Inl e \<Rightarrow> Inl e
           | Inr test_data \<Rightarrow>
               Inr (self\<lparr>deita_train_dataset :=
                            Some \<lparr>sd_data = train_data, sd_tokenizer = deita_tokenizer self,
                                  sd_max_seq_length = deita_max_seq_length self,
                                  sd_mask_prompt = deita_mask_prompt self,
                                  sd_ignore_index = deita_ignore_index self\<rparr>,
                         deita_test_dataset :=
                            Some \<lparr>sd_data = test_data, sd_tokenizer = deita_tokenizer self,
                                  sd_max_seq_length = deita_max_seq_length self,
                                  sd_mask_prompt = deita_mask_prompt self,
                                  sd_ignore_index = deita_ignore_index self\<rparr>\<rparr>)))"

definition deita_train_dataloader :: "'tok deita \<Rightarrow> 'tok data_loader" where
  "deita_train_dataloader self =
     \<lparr>dl_dataset = deita_train_dataset self,
      dl_batch_size = deita_batch_size self,
      dl_shuffle = True,
      dl_generator = Some (deita_seed self),
      dl_num_workers = deita_num_workers self,
      dl_collate_max_seq_length = deita_max_seq_length self,
      dl_collate_ignore_index = deita_ignore_index self\<rparr>"

definition deita_val_dataloader :: "'tok deita \<Rightarrow> 'tok data_loader" where
  "deita_val_dataloader self =
     \<lparr>dl_dataset = deita_test_dataset self,
      dl_batch_size = deita_batch_size self,
      dl_shuffle = False,
      dl_generator = None,
      dl_num_workers = deita_num_workers self,
      dl_collate_max_seq_length = deita_max_seq_length self,
      dl_collate_ignore_index = deita_ignore_index self\<rparr>"

subsection \<open>TinyStories (\<open>litgpt/data/tinystories.py\<close>)\<close>

text \<open>\<open>s.rstrip("/")\<close>.\<close>

definition rstrip_slash :: "string \<Rightarrow> string" where
  "rstrip_slash s = rev (dropWhile (\<lambda>c. c = CHR ''/'') (rev s))"

record 'tok tinystories =
  ts_data_path :: string
  ts_seed :: int
  ts_num_workers :: int
  ts_tokenizer :: "'tok option"
  ts_batch_size :: int
  ts_max_seq_length :: int
  ts_data_path_train :: string
  ts_data_path_val :: string

text \<open>The dataclass constructor followed by \<open>__post_init__\<close>.\<close>

definition tinystories_init :: "string \<Rightarrow> int \<Rightarrow> int \<Rightarrow> 'tok tinystories" where
  "tinystories_init data_path seed num_workers =
     \<lparr>ts_data_path = data_path, ts_seed = seed, ts_num_workers = num_workers,
      ts_tokenizer = None, ts_batch_size = 1, ts_max_seq_length = - 1,
      ts_data_path_train = rstrip_slash data_path @ ''/train'',
      ts_data_path_val = rstrip_slash data_path @ ''/val''\<rparr>"

definition tinystories_connect :: "'tok tinystories \<Rightarrow> 'tok option \<Rightarrow> int \<Rightarrow> int \<Rightarrow> 'tok tinystories" where
  "tinystories_connect self tokenizer batch_size max_seq_length =
     self\<lparr>ts_tokenizer := tokenizer,
          ts_batch_size := batch_size,
          ts_max_seq_length := max_seq_length + 1\<rparr>"

text \<open>
  The loaders of TinyStories are built over a \<open>litdata\<close> \<open>StreamingDataset\<close> whose item
  loader is \<open>TokensLoader(block_size=self.max_seq_length)\<close>; the record holds the
  arguments of the dataset and of the loader around it.
\<close>

record streaming_loader =
  sl_input_dir :: string
  sl_block_size :: int
  sl_shuffle :: bool
  sl_dataset_drop_last :: bool
  sl_batch_size :: int
  sl_pin_memory :: bool
  sl_num_workers :: int
  sl_drop_last :: bool

definition tinystories_train_dataloader :: "'tok tinystories \<Rightarrow> streaming_loader" where
  "tinystories_train_dataloader self =
     \<lparr>sl_input_dir = ts_data_path_train self,
      sl_block_size = ts_max_seq_length self,
      sl_shuffle = True,
      sl_dataset_drop_last = True,
      sl_batch_size = ts_batch_size self,
      sl_pin_memory = True,
      sl_num_workers = ts_num_workers self,
      sl_drop_last = True\<rparr>"

definition tinystories_val_dataloader :: "'tok tinystories \<Rightarrow> streaming_loader" where
  "tinystories_val_dataloader self =
     \<lparr>sl_input_dir = ts_data_path_val self,
      sl_block_size = ts_max_seq_length self,
      sl_shuffle = True,
      sl_dataset_drop_last = True,
      sl_batch_size = ts_batch_size self,
      sl_pin_memory = True,
      sl_num_workers = ts_num_workers self,
      sl_drop_last = True\<rparr>"

subsection \<open>Alpaca and LIMA (\<open>lit_gpt/datasets/alpaca.py\<close>, \<open>lit_gpt/datasets/lima.py\<close>)\<close>

text \<open>
  These two classes have no \<open>connect\<close> method. The tokenizer, the batch size and the
  maximal sequence length are arguments of \<open>__init__\<close>, which also accepts a path in
  place of the tokenizer and then builds \<open>Tokenizer(Path(path))\<close>; \<open>load\<close> stands for
  that constructor.
\<close>

datatype 'tok tokenizer_or_path = AtPath string | Given 'tok

record 'tok alpaca =
  alpaca_tokenizer :: 'tok
  alpaca_max_seq_length :: int
  alpaca_mask_prompt :: bool
  alpaca_ignore_index :: int
  alpaca_seed :: int
  alpaca_batch_size :: int
  alpaca_num_workers :: int
  alpaca_train_dataset :: "'tok sft_dataset option"
  alpaca_test_dataset :: "'tok sft_dataset option"

definition alpaca_init ::
  "(string \<Rightarrow> 'tok) \<Rightarrow> 'tok tokenizer_or_path \<Rightarrow> int \<Rightarrow> bool \<Rightarrow> int \<Rightarrow> int \<Rightarrow> int \<Rightarrow> int
     \<Rightarrow> 'tok alpaca" where
  "alpaca_init load tokenizer_or_path max_seq_length mask_prompt ignore_index seed batch_size
       num_workers =
     \<lparr>alpaca_tokenizer = (case tokenizer_or_path of AtPath p \<Rightarrow> load p | Given t \<Rightarrow> t),
      alpaca_max_seq_length = max_seq_length,
      alpaca_mask_prompt = mask_prompt,
      alpaca_ignore_index = ignore_index,
      alpaca_seed = seed,
      alpaca_batch_size = batch_size,
      alpaca_num_workers = num_workers,
      alpaca_train_dataset = None,
      alpaca_test_dataset = None\<rparr>"

definition alpaca_train_dataloader :: "'tok alpaca \<Rightarrow> 'tok data_loader" where
  "alpaca_train_dataloader self =
     \<lparr>dl_dataset = alpaca_train_dataset self,
      dl_batch_size = alpaca_batch_size self,
      dl_shuffle = True,
      dl_generator = None,
      dl_num_workers = alpaca_num_workers self,
      dl_collate_max_seq_length = alpaca_max_seq_length self,
      dl_collate_ignore_index = alpaca_ignore_index self\<rparr>"

definition alpaca_val_dataloader :: "'tok alpaca \<Rightarrow> 'tok data_loader" where
  "alpaca_val_dataloader self =
     \<lparr>dl_dataset = alpaca_test_dataset self,
      dl_batch_size = alpaca_batch_size self,
      dl_shuffle = False,
      dl_generator = None,
      dl_num_workers = alpaca_num_workers self,
      dl_collate_max_seq_length = alpaca_max_seq_length self,
      dl_collate_ignore_index = alpaca_ignore_index self\<rparr>"

record 'tok lima =
  lima_tokenizer :: 'tok
  lima_max_seq_length :: int
  lima_mask_prompt :: bool
  lima_ignore_index :: int
  lima_seed :: int
  lima_batch_size :: int
  lima_num_workers :: int
  lima_access_token :: string
  lima_data_repo_id :: string
  lima_include_multiturn_conversations :: bool
  lima_train_dataset :: "'tok sft_dataset option"
  lima_test_dataset :: "'tok sft_dataset option"

definition lima_init ::
  "(string \<Rightarrow> 'tok) \<Rightarrow> 'tok tokenizer_or_path \<Rightarrow> int \<Rightarrow> bool \<Rightarrow> int \<Rightarrow> int \<Rightarrow> bool \<Rightarrow> string
     \<Rightarrow> string option \<Rightarrow> int \<Rightarrow> int \<Rightarrow> py_error + 'tok lima" where
  "lima_init load tokenizer_or_path max_seq_length mask_prompt ignore_index seed
       include_multiturn_conversations data_repo_id access_token batch_size num_workers =
     (case access_token of
        None \<Rightarrow>
          Inl (ValueError
            (''LIMA requires authentication, please set the `HF_TOKEN=your_token` environment''
             @ '' variable or pass --access_token=your_token. You can find your token by visiting''
             @ '' https://huggingface.co/settings/tokens''))
      | Some tk \<Rightarrow>
          Inr \<lparr>lima_tokenizer = (case tokenizer_or_path of AtPath p \<Rightarrow> load p | Given t \<Rightarrow> t),
               lima_max_seq_length = max_seq_length,
               lima_mask_prompt = mask_prompt,
               lima_ignore_index = ignore_index,
               lima_seed = seed,
               lima_batch_size = batch_size,
               lima_num_workers = num_workers,
               lima_access_token = tk,
               lima_data_repo_id = data_repo_id,
               lima_include_multiturn_conversations = include_multiturn_conversations,
               lima_train_dataset = None,
               lima_test_dataset = None\<rparr>)"

definition lima_train_dataloader :: "'tok lima \<Rightarrow> 'tok data_loader" where
  "lima_train_dataloader self =
     \<lparr>dl_dataset = lima_train_dataset self,
      dl_batch_size = lima_batch_size self,
      dl_shuffle = True,
      dl_generator = None,
      dl_num_workers = lima_num_workers self,
      dl_collate_max_seq_length = lima_max_seq_length self,
      dl_collate_ignore_index = lima_ignore_index self\<rparr>"

definition lima_val_dataloader :: "'tok lima \<Rightarrow> 'tok data_loader" where
  "lima_val_dataloader self =
     \<lparr>dl_dataset = lima_test_dataset self,
      dl_batch_size = lima_batch_size self,
      dl_shuffle = False,
      dl_generator = None,
      dl_num_workers = lima_num_workers self,
      dl_collate_max_seq_length = lima_max_seq_length self,
      dl_collate_ignore_index = lima_ignore_index self\<rparr>"

section \<open>\<open>finetune/full.py\<close>: the arguments and their check\<close>

text \<open>
  The argument classes \<open>IOArgs\<close>, \<open>TrainArgs\<close> and \<open>EvalArgs\<close> live in
  \<open>lit_gpt/args.py\<close>, which is not among the sources; the records hold the fields that
  \<open>full.py\<close> reads, with \<open>None\<close> as \<open>None\<close>. The counts and intervals are natural
  numbers. \<open>train.gradient_accumulation_iters(devices)\<close> is a method of the absent
  class; its value for the run's \<open>devices\<close> is the field
  \<open>gradient_accumulation_iters\<close>.
\<close>

record io_args =
  checkpoint_dir :: "string option"
  out_dir :: string

record train_args =
  save_interval :: nat
  log_interval :: nat
  micro_batch_size :: nat
  gradient_accumulation_iters :: nat
  lr_warmup_steps :: nat
  epochs :: "int option"
  max_tokens :: "int option"
  max_steps :: "int option"
  max_seq_length :: "int option"
  max_norm :: "real option"
  learning_rate :: real

record eval_args =
  interval :: nat
  max_new_tokens :: "nat option"
  max_iters :: nat

text \<open>
  \<open>x or float("inf")\<close> for an optional integer: \<open>None\<close> and 0 are falsy, so both stand
  for no bound.
\<close>

definition or_inf :: "int option \<Rightarrow> int option" where
  "or_inf x = (case x of None \<Rightarrow> None | Some v \<Rightarrow> if v = 0 then None else Some v)"

text \<open>
  The texts that the messages of \<open>validate_args\<close> splice in: \<open>__file__\<close> and the
  \<open>repr\<close> of each argument object.
\<close>

record args_text =
  file_name :: string
  io_repr :: string
  train_repr :: string
  eval_repr :: string

definition unsupported_issue :: "string \<Rightarrow> string \<Rightarrow> string \<Rightarrow> string" where
  "unsupported_issue file name args =
     file @ '' doesn't support the '' @ [CHR 0x27] @ name @ [CHR 0x27]
     @ '' argument. This is set in '' @ args"

definition required_issue :: "string \<Rightarrow> string \<Rightarrow> string \<Rightarrow> string" where
  "required_issue file name args =
     file @ '' requires the '' @ [CHR 0x27] @ name @ [CHR 0x27]
     @ '' argument. This is set in '' @ args"

text \<open>\<open>sep.join(xs)\<close>.\<close>

fun join :: "string \<Rightarrow> string list \<Rightarrow> string" where
  "join sep [] = []"
| "join sep [x] = x"
| "join sep (x # y # ys) = x @ sep @ join sep (y # ys)"

text \<open>
  The two loops of \<open>validate_args\<close> append to \<open>issues\<close> in the order of the tables
  \<open>unsupported\<close> and \<open>required\<close>.
\<close>

definition issues_of :: "args_text \<Rightarrow> io_args \<Rightarrow> train_args \<Rightarrow> eval_args \<Rightarrow> string list" where
  "issues_of T io train eval =
     (if max_tokens train \<noteq> None
      then [unsupported_issue (file_name T) ''max_tokens'' (train_repr T)] else [])
     @ (if max_norm train \<noteq> None
        then [unsupported_issue (file_name T) ''max_norm'' (train_repr T)] else [])
     @ (if checkpoint_dir io = None
        then [required_issue (file_name T) ''checkpoint_dir'' (io_repr T)] else [])
     @ (if epochs train = None
        then [required_issue (file_name T) ''epochs'' (train_repr T)] else [])
     @ (if max_new_tokens eval = None
        then [required_issue (file_name T) ''max_new_tokens'' (eval_repr T)] else [])"

definition validate_args :: "args_text \<Rightarrow> io_args \<Rightarrow> train_args \<Rightarrow> eval_args \<Rightarrow> py_error + unit" where
  "validate_args T io train eval =
     (let issues = issues_of T io train eval
      in if issues \<noteq> [] then Inl (ValueError (join ''\<newline>'' issues)) else Inr ())"

text \<open>
  \<open>main\<close> calls \<open>validate_args\<close> first. What follows it builds, in this order, the
  tokenizer, the dataloaders, the model, the optimizer, the scheduler and the training
  state, then loads a checkpoint and calls \<open>fit\<close>. These steps run code of the framework
  and of modules that are not among the sources; how far they get, and how they end, is
  the parameter \<open>rest\<close>. \<open>main\<close> gives the steps taken and the exception, if any.
\<close>

datatype main_step =
    CheckCheckpointDir
  | BuildTokenizer
  | BuildDataloaders
  | SeedEverything
  | BuildModel
  | BuildOptimizer
  | BuildScheduler
  | CreateState
  | LoadCheckpoint
  | Fit
  | SaveFinal

definition main ::
  "args_text \<Rightarrow> io_args \<Rightarrow> train_args \<Rightarrow> eval_args
     \<Rightarrow> main_step list \<times> py_error option \<Rightarrow> main_step list \<times> py_error option" where
  "main T io train eval rest =
     (case validate_args T io train eval of
        Inl e \<Rightarrow> ([], Some e)
      | Inr u \<Rightarrow> rest)"

text \<open>The condition of the contract, in its words.\<close>

definition bad_arguments :: "io_args \<Rightarrow> train_args \<Rightarrow> eval_args \<Rightarrow> bool" where
  "bad_arguments io train eval =
     (max_tokens train \<noteq> None \<or> max_norm train \<noteq> None \<or> checkpoint_dir io = None
      \<or> epochs train = None \<or> max_new_tokens eval = None)"

section \<open>\<open>finetune/full.py\<close>: the learning-rate schedule\<close>

text \<open>
  \<open>get_lr_scheduler\<close> builds three schedulers of \<open>torch.optim.lr_scheduler\<close>. A
  scheduler is the record of how it was built: \<open>LambdaLR\<close> with its function of the
  step, \<open>CosineAnnealingLR\<close> with \<open>T_max\<close>, \<open>SequentialLR\<close> with the two schedulers it
  runs one after the other and the milestone at which it changes over (the call passes
  the lists \<open>[scheduler1, scheduler2]\<close> and \<open>[warmup_steps]\<close>).

  \<open>LambdaLR\<close> calls its function once when it is built, at step 0; the function of
  \<open>get_lr_scheduler\<close> is \<open>step / warmup_steps\<close>, which raises
  \<open>ZeroDivisionError\<close> for \<open>warmup_steps = 0\<close>.
\<close>

datatype scheduler =
    LambdaLR "nat \<Rightarrow> real"
  | CosineAnnealingLR int
  | SequentialLR scheduler scheduler nat

definition get_lr_scheduler :: "nat \<Rightarrow> int \<Rightarrow> py_error + scheduler" where
  "get_lr_scheduler warmup_steps lr_max =
     (if warmup_steps = 0 then Inl ZeroDivisionError
      else Inr (SequentialLR
                  (LambdaLR (\<lambda>step. real step / real warmup_steps))
                  (CosineAnnealingLR (lr_max - int warmup_steps))
                  warmup_steps))"

text \<open>
  What the schedulers do is the framework's: the learning rate after \<open>t\<close> calls of
  \<open>scheduler.step()\<close>, for the base rate \<open>base\<close> of the optimizer. \<open>LambdaLR\<close>
  multiplies the base rate by its function of \<open>t\<close>. \<open>CosineAnnealingLR\<close> with
  \<open>eta_min = 0\<close> gives \<open>base * (1 + cos(pi * t / T_max)) / 2\<close>, and divides by
  \<open>T_max\<close>. \<open>SequentialLR\<close> runs the first scheduler before the milestone and the
  second one from the milestone on, started anew there.
\<close>

fun lr_at :: "scheduler \<Rightarrow> real \<Rightarrow> nat \<Rightarrow> py_error + real" where
  "lr_at (LambdaLR f) base t = Inr (base * f t)"
| "lr_at (CosineAnnealingLR T_max) base t =
     (if T_max = 0 then Inl ZeroDivisionError
      else Inr (base * (1 + cos (pi * real t / real_of_int T_max)) / 2))"
| "lr_at (SequentialLR s1 s2 milestone) base t =
     (if t < milestone then lr_at s1 base t else lr_at s2 base (t - milestone))"

text \<open>
  Lines 100 and 101 of \<open>main\<close>: \<open>steps_per_epoch\<close> and \<open>lr_max_steps\<close>, from the
  length of the train loader. Floor division by zero raises; \<open>None * n\<close> raises
  \<open>TypeError\<close>; \<open>min(a, float("inf"))\<close> is \<open>a\<close>.
\<close>

definition steps_per_epoch :: "train_args \<Rightarrow> nat \<Rightarrow> py_error + int" where
  "steps_per_epoch train len_train_dataloader =
     (if gradient_accumulation_iters train = 0 then Inl ZeroDivisionError
      else Inr (int (len_train_dataloader div gradient_accumulation_iters train)))"

definition lr_max_steps :: "train_args \<Rightarrow> nat \<Rightarrow> py_error + int" where
  "lr_max_steps train len_train_dataloader =
     (case steps_per_epoch train len_train_dataloader of
        Inl e \<Rightarrow> Inl e
      | Inr spe \<Rightarrow>
          (case epochs train of
             None \<Rightarrow> Inl TypeError
           | Some e \<Rightarrow>
               (case or_inf (max_steps train) of
                  None \<Rightarrow> Inr (e * spe)
                | Some m \<Rightarrow> Inr (min (e * spe) m))))"

text \<open>Line 120 of \<open>main\<close>: the scheduler of the run.\<close>

definition main_scheduler :: "train_args \<Rightarrow> nat \<Rightarrow> py_error + scheduler" where
  "main_scheduler train len_train_dataloader =
     (case lr_max_steps train len_train_dataloader of
        Inl e \<Rightarrow> Inl e
      | Inr lr_max \<Rightarrow> get_lr_scheduler (lr_warmup_steps train) lr_max)"

section \<open>\<open>finetune/full.py\<close>: the training loop \<open>fit\<close>\<close>

subsection \<open>The framework, as far as \<open>fit\<close> relies on it\<close>

text \<open>
  \<open>fit\<close> calls into PyTorch, Lightning Fabric and torchmetrics. Their code is not part
  of the repository; what \<open>fit\<close> needs of it is kept as parameters, in the record
  \<open>fit_env\<close> below.

  A random generator is known by its seed and by how many values have been drawn from
  it since it was seeded. The order in which a shuffling \<open>DataLoader\<close> yields its
  batches in one pass is drawn when the pass starts, from the generator passed as
  \<open>generator=\<close>, and from the generator of the process when none was passed
  (\<open>fw_randperm\<close> gives the order for a generator state; the draw moves the generator
  on). A loader that does not shuffle yields its batches in the order of the dataset.
\<close>

type_synonym rng = "int \<times> nat"

definition draw :: "rng \<Rightarrow> rng" where
  "draw g = (fst g, Suc (snd g))"

record 'b train_loader =
  tl_batches :: "'b list"
  tl_shuffle :: bool
  tl_generator :: "int option"
  tl_dataset_empty :: bool

text \<open>
  What \<open>fit\<close> writes to the outside, in the order it does so. \<open>Skipped\<close> is a batch
  read and dropped while resuming, \<open>Forward\<close> a batch with the loss the model gave on
  it, \<open>Backward\<close> the call \<open>fabric.backward(x)\<close> with the flag of
  \<open>fabric.no_backward_sync(model, enabled=flag)\<close> around it, \<open>StepCount n\<close> the
  assignment that makes \<open>state["step_count"]\<close> equal to \<open>n\<close>, \<open>LogDict\<close> the
  metrics \<open>loss\<close>, \<open>iter\<close> and \<open>step\<close> handed to \<open>fabric.log_dict\<close>,
  \<open>Validating k\<close> the loss loop of \<open>validate\<close> over \<open>k\<close> batches, \<open>Generate p n\<close>
  the call of \<open>generate\<close> on the prompt of instruction \<open>p\<close> with
  \<open>max_returned_tokens = n\<close>, and \<open>Save\<close> the call of \<open>fabric.save\<close> on the whole
  state, with its path.
\<close>

datatype 'b event =
    Skipped 'b
  | Forward 'b real
  | Backward bool real
  | OptimizerStep
  | ZeroGrad
  | SchedulerStep
  | StepCount nat
  | LogDict real nat nat
  | Validating nat
  | Generate string nat
  | Save string

record ('m, 'b) fit_env =
  fw_forward_loss :: "'m \<Rightarrow> 'b \<Rightarrow> real"
  fw_backward :: "bool \<Rightarrow> real \<Rightarrow> 'b \<Rightarrow> 'm \<Rightarrow> 'm"
  fw_optimizer_step :: "'m \<Rightarrow> 'm"
  fw_zero_grad :: "'m \<Rightarrow> 'm"
  fw_scheduler_step :: "'m \<Rightarrow> 'm"
  fw_randperm :: "rng \<Rightarrow> 'b list \<Rightarrow> 'b list"
  fw_validate_rng :: "rng \<Rightarrow> rng"
  fw_encoded_len :: nat
  env_train_dataloader :: "'b train_loader"
  env_val_batches :: "'b list"
  env_io :: io_args
  env_train :: train_args
  env_eval :: eval_args

text \<open>
  The state of a run of \<open>fit\<close>: the entries of the dictionary \<open>state\<close> (the model
  stands for model, optimizer and scheduler together), the two attributes of the
  \<open>CycleIterator\<close>, the generator of the train loader (if it has one of its own) and
  the generator of the process, the window of the running mean, and what was written so
  far. Every entry of \<open>trace\<close> carries the value of \<open>iter_num\<close> of the iteration that
  wrote it; what \<open>fit\<close> does before its loop carries 0.
\<close>

record ('m, 'b) fit_state =
  model :: 'm
  iter_num :: nat
  step_count :: nat
  epoch :: nat
  remaining :: "'b list option"
  loader_rng :: "rng option"
  global_rng :: rng
  running_loss :: "real list"
  trace :: "(nat \<times> 'b event) list"

subsection \<open>The cycling iterator\<close>

text \<open>\<open>iter(train_dataloader)\<close>: the batches of a new pass, in the order drawn for it.\<close>

definition new_iterator :: "('m, 'b) fit_env \<Rightarrow> ('m, 'b) fit_state \<Rightarrow> 'b list \<times> ('m, 'b) fit_state" where
  "new_iterator E s =
     (let dl = env_train_dataloader E in
      if \<not> tl_shuffle dl then (tl_batches dl, s)
      else
        (case loader_rng s of
           Some g \<Rightarrow> (fw_randperm E g (tl_batches dl), s\<lparr>loader_rng := Some (draw g)\<rparr>)
         | None \<Rightarrow>
             (fw_randperm E (global_rng s) (tl_batches dl),
              s\<lparr>global_rng := draw (global_rng s)\<rparr>)))"

text \<open>
  Modelled from the spec: \<open>CycleIterator\<close> of \<open>lit_gpt/utils.py\<close>, which is not among
  the sources. The specification calls it a cycling data iterator: \<open>next\<close> gives the
  next batch of the current pass over the loader; when the pass is over it starts a new
  one, counts it in \<open>epoch\<close>, and gives the first batch of the new pass. The first pass
  starts at the first \<open>next\<close>. A loader with no batch at all ends the new pass at once,
  and that \<open>StopIteration\<close> is not caught.
\<close>

definition next_batch ::
  "('m, 'b) fit_env \<Rightarrow> ('m, 'b) fit_state \<Rightarrow> py_error + ('b \<times> ('m, 'b) fit_state)" where
  "next_batch E s =
     (let (cur, s1) = (case remaining s of None \<Rightarrow> new_iterator E s | Some r \<Rightarrow> (r, s)) in
      case cur of
        b # rest \<Rightarrow> Inr (b, s1\<lparr>remaining := Some rest\<rparr>)
      | [] \<Rightarrow>
          (let (fresh, s2) = new_iterator E s1 in
           case fresh of
             [] \<Rightarrow> Inl StopIteration
           | b # rest \<Rightarrow> Inr (b, s2\<lparr>remaining := Some rest, epoch := epoch s1 + 1\<rparr>)))"

subsection \<open>The running mean\<close>

text \<open>
  \<open>torchmetrics.RunningMean(window=w)\<close> keeps the last \<open>w\<close> values it was updated
  with; \<open>compute\<close> is their mean.
\<close>

definition running_update :: "nat \<Rightarrow> real list \<Rightarrow> real \<Rightarrow> real list" where
  "running_update w xs x = (let ys = xs @ [x] in drop (length ys - w) ys)"

definition running_compute :: "real list \<Rightarrow> real" where
  "running_compute xs = sum_list xs / real (length xs)"

subsection \<open>\<open>validate\<close>\<close>

definition instruction :: string where
  "instruction = ''Recommend a movie for me to watch during the weekend and explain the reason.''"

text \<open>
  \<open>validate\<close> reads \<open>eval.max_iters\<close> batches from a new iterator over the validation
  loader, which does not cycle: \<open>next\<close> raises \<open>StopIteration\<close> when the loader has
  fewer. Then it samples from the model: \<open>generate\<close> on the encoded prompt of the fixed
  instruction, up to \<open>len(encoded) + eval.max_new_tokens\<close> tokens in all (the sum
  raises \<open>TypeError\<close> when \<open>max_new_tokens\<close> is \<open>None\<close>). The length of the encoded
  prompt is given by the tokenizer and the prompt template, code that is not among the
  sources. \<open>validate\<close> draws from the generator of the process (the iterator over the
  validation loader, the sampling); \<open>fw_validate_rng\<close> is the state it leaves.
\<close>

definition validate ::
  "('m, 'b) fit_env \<Rightarrow> eval_args \<Rightarrow> nat \<Rightarrow> ('m, 'b) fit_state \<Rightarrow> py_error + ('m, 'b) fit_state" where
  "validate E ev tag s =
     (if length (env_val_batches E) < max_iters ev then Inl StopIteration
      else
        (case max_new_tokens ev of
           None \<Rightarrow> Inl TypeError
         | Some k \<Rightarrow>
             Inr (s\<lparr>global_rng := fw_validate_rng E (global_rng s),
                    trace := trace s @ [(tag, Validating (max_iters ev)),
                                        (tag, Generate instruction (fw_encoded_len E + k))]\<rparr>)))"

subsection \<open>The name of a checkpoint\<close>

text \<open>\<open>f"step-{n:06d}.pth"\<close>: the decimal digits of \<open>n\<close>, with zeros in front up to six digits.\<close>

definition digit_char :: "nat \<Rightarrow> char" where
  "digit_char d = ''0123456789'' ! d"

function decimal :: "nat \<Rightarrow> string" where
  "decimal n = (if n < 10 then [digit_char n] else decimal (n div 10) @ [digit_char (n mod 10)])"
  by pat_completeness auto
termination
  by (relation "measure (\<lambda>n. n)") auto

declare decimal.simps [simp del]

definition format_06d :: "nat \<Rightarrow> string" where
  "format_06d n = (let ds = decimal n in replicate (6 - length ds) CHR ''0'' @ ds)"

definition checkpoint_path :: "io_args \<Rightarrow> nat \<Rightarrow> string" where
  "checkpoint_path io n = path_join (out_dir io) (''step-'' @ format_06d n @ ''.pth'')"

subsection \<open>One iteration of the loop\<close>

text \<open>
  The condition of the \<open>while\<close>. The second operand is evaluated only when the first
  holds; comparing the epoch with \<open>None\<close> raises \<open>TypeError\<close>.
\<close>

definition fit_cond :: "('m, 'b) fit_env \<Rightarrow> ('m, 'b) fit_state \<Rightarrow> py_error + bool" where
  "fit_cond E s =
     (if (case or_inf (max_steps (env_train E)) of None \<Rightarrow> True | Some m \<Rightarrow> int (step_count s) < m)
      then (case epochs (env_train E) of
              None \<Rightarrow> Inl TypeError
            | Some e \<Rightarrow> Inr (int (epoch s) < e))
      else Inr False)"

text \<open>
  Lines 192 to 198: the forward pass, the backward pass on the loss divided by the
  accumulation count, under \<open>no_backward_sync\<close>, and the update of the running mean.
\<close>

definition backward_phase ::
  "('m, 'b) fit_env \<Rightarrow> bool \<Rightarrow> 'b \<Rightarrow> ('m, 'b) fit_state \<Rightarrow> ('m, 'b) fit_state" where
  "backward_phase E is_accumulating batch s =
     (let gai = gradient_accumulation_iters (env_train E);
          loss = fw_forward_loss E (model s) batch
      in s\<lparr>model := fw_backward E is_accumulating (loss / real gai) batch (model s),
            running_loss := running_update gai (running_loss s) loss,
            trace := trace s @ [(iter_num s, Forward batch loss),
                                (iter_num s, Backward is_accumulating (loss / real gai))]\<rparr>)"

text \<open>Lines 200 to 204: the update, taken when the iteration is not accumulating.\<close>

definition optimizer_phase :: "('m, 'b) fit_env \<Rightarrow> ('m, 'b) fit_state \<Rightarrow> ('m, 'b) fit_state" where
  "optimizer_phase E s =
     s\<lparr>model := fw_scheduler_step E (fw_zero_grad E (fw_optimizer_step E (model s))),
       step_count := step_count s + 1,
       trace := trace s @ [(iter_num s, OptimizerStep), (iter_num s, ZeroGrad),
                           (iter_num s, SchedulerStep), (iter_num s, StepCount (step_count s + 1))]\<rparr>"

text \<open>Lines 206 to 224: the metrics, every \<open>log_interval\<close> iterations.\<close>

definition log_phase :: "('m, 'b) fit_env \<Rightarrow> ('m, 'b) fit_state \<Rightarrow> py_error + ('m, 'b) fit_state" where
  "log_phase E s =
     (if log_interval (env_train E) = 0 then Inl ZeroDivisionError
      else if iter_num s mod log_interval (env_train E) = 0
      then Inr (s\<lparr>trace := trace s @ [(iter_num s,
                     LogDict (running_compute (running_loss s)) (iter_num s) (step_count s))]\<rparr>)
      else Inr s)"

text \<open>Lines 226 to 233. The remainder is taken only when the iteration is not accumulating.\<close>

definition validate_phase ::
  "('m, 'b) fit_env \<Rightarrow> bool \<Rightarrow> ('m, 'b) fit_state \<Rightarrow> py_error + ('m, 'b) fit_state" where
  "validate_phase E is_accumulating s =
     (if is_accumulating then Inr s
      else if interval (env_eval E) = 0 then Inl ZeroDivisionError
      else if step_count s mod interval (env_eval E) = 0
      then validate E (env_eval E) (iter_num s) s
      else Inr s)"

text \<open>Lines 234 to 237.\<close>

definition save_phase ::
  "('m, 'b) fit_env \<Rightarrow> bool \<Rightarrow> ('m, 'b) fit_state \<Rightarrow> py_error + ('m, 'b) fit_state" where
  "save_phase E is_accumulating s =
     (if is_accumulating then Inr s
      else if save_interval (env_train E) = 0 then Inl ZeroDivisionError
      else if step_count s mod save_interval (env_train E) = 0
      then Inr (s\<lparr>trace := trace s @ [(iter_num s, Save (checkpoint_path (env_io E) (step_count s)))]\<rparr>)
      else Inr s)"

text \<open>
  The body of the \<open>while\<close>, lines 186 to 237. \<open>x % 0\<close> raises \<open>ZeroDivisionError\<close>.
\<close>

definition fit_iteration :: "('m, 'b) fit_env \<Rightarrow> ('m, 'b) fit_state \<Rightarrow> py_error + ('m, 'b) fit_state" where
  "fit_iteration E s =
     (let gai = gradient_accumulation_iters (env_train E) in
      case next_batch E (s\<lparr>iter_num := iter_num s + 1\<rparr>) of
        Inl e \<Rightarrow> Inl e
      | Inr (batch, s1) \<Rightarrow>
          if gai = 0 then Inl ZeroDivisionError
          else
            (let is_accumulating = (iter_num s1 mod gai \<noteq> 0);
                 s2 = backward_phase E is_accumulating batch s1;
                 s3 = (if \<not> is_accumulating then optimizer_phase E s2 else s2)
             in case log_phase E s3 of
                  Inl e \<Rightarrow> Inl e
                | Inr s4 \<Rightarrow>
                    (case validate_phase E is_accumulating s4 of
                       Inl e \<Rightarrow> Inl e
                     | Inr s5 \<Rightarrow> save_phase E is_accumulating s5)))"

subsection \<open>The loop and what comes before it\<close>

text \<open>
  The state after exactly \<open>k\<close> iterations of the loop, when the loop runs that long:
  the condition held and the body did not raise, \<open>k\<close> times.
\<close>

fun after_iterations ::
  "nat \<Rightarrow> ('m, 'b) fit_env \<Rightarrow> ('m, 'b) fit_state \<Rightarrow> ('m, 'b) fit_state option" where
  "after_iterations 0 E s = Some s"
| "after_iterations (Suc k) E s =
     (case fit_cond E s of
        Inr True \<Rightarrow>
          (case fit_iteration E s of
             Inl e \<Rightarrow> None
           | Inr s' \<Rightarrow> after_iterations k E s')
      | _ \<Rightarrow> None)"

text \<open>
  The loop itself, with a bound on the number of iterations: \<open>None\<close> when the bound is
  reached before the loop ends.
\<close>

fun fit_loop ::
  "nat \<Rightarrow> ('m, 'b) fit_env \<Rightarrow> ('m, 'b) fit_state \<Rightarrow> (py_error + ('m, 'b) fit_state) option" where
  "fit_loop 0 E s = None"
| "fit_loop (Suc k) E s =
     (case fit_cond E s of
        Inl e \<Rightarrow> Some (Inl e)
      | Inr False \<Rightarrow> Some (Inr s)
      | Inr True \<Rightarrow>
          (case fit_iteration E s of
             Inl e \<Rightarrow> Some (Inl e)
           | Inr s' \<Rightarrow> fit_loop k E s'))"

text \<open>
  Lines 168 to 178: when resuming, \<open>initial_iter\<close> batches are read from the new
  iterator and dropped.
\<close>

fun fast_forward ::
  "nat \<Rightarrow> ('m, 'b) fit_env \<Rightarrow> ('m, 'b) fit_state \<Rightarrow> py_error + ('m, 'b) fit_state" where
  "fast_forward 0 E s = Inr s"
| "fast_forward (Suc k) E s =
     (case next_batch E s of
        Inl e \<Rightarrow> Inl e
      | Inr (batch, s') \<Rightarrow> fast_forward k E (s'\<lparr>trace := trace s' @ [(0, Skipped batch)]\<rparr>))"

text \<open>
  Lines 152 to 183, from the dictionary \<open>state\<close> that \<open>main\<close> hands over (new, or
  loaded from a checkpoint) and the generator of the process as \<open>main\<close> left it.
  \<open>get_longest_seq_length\<close> takes the maximum over the train dataset and raises
  \<open>ValueError\<close> on an empty one; the sanity check is \<open>validate\<close> with
  \<open>max_iters = 2\<close>; the \<open>CycleIterator\<close> is new, and so is the train loader, whose own
  generator, if it has one, was seeded when \<open>main\<close> built it.
\<close>

definition fit_prologue ::
  "('m, 'b) fit_env \<Rightarrow> bool \<Rightarrow> 'm \<Rightarrow> nat \<Rightarrow> nat \<Rightarrow> rng \<Rightarrow> py_error + ('m, 'b) fit_state" where
  "fit_prologue E resume m initial_iter initial_step g =
     (if tl_dataset_empty (env_train_dataloader E)
      then Inl (ValueError ''max() arg is an empty sequence'')
      else
        (case validate E ((env_eval E)\<lparr>max_iters := 2\<rparr>) 0
                \<lparr>model = m, iter_num = initial_iter, step_count = initial_step, epoch = 0,
                 remaining = None,
                 loader_rng = map_option (\<lambda>seed. (seed, 0)) (tl_generator (env_train_dataloader E)),
                 global_rng = g, running_loss = [], trace = []\<rparr> of
           Inl e \<Rightarrow> Inl e
         | Inr s \<Rightarrow> if resume then fast_forward initial_iter E s else Inr s))"

definition fit ::
  "nat \<Rightarrow> ('m, 'b) fit_env \<Rightarrow> bool \<Rightarrow> 'm \<Rightarrow> nat \<Rightarrow> nat \<Rightarrow> rng
     \<Rightarrow> (py_error + ('m, 'b) fit_state) option" where
  "fit bound E resume m initial_iter initial_step g =
     (case fit_prologue E resume m initial_iter initial_step g of
        Inl e \<Rightarrow> Some (Inl e)
      | Inr s \<Rightarrow> fit_loop bound E s)"

subsection \<open>Reading the trace\<close>

definition iteration_events :: "nat \<Rightarrow> ('m, 'b) fit_state \<Rightarrow> 'b event list" where
  "iteration_events i s = map snd (filter (\<lambda>p. fst p = i) (trace s))"

fun forward_losses :: "'b event list \<Rightarrow> real list" where
  "forward_losses [] = []"
| "forward_losses (Forward b l # es) = l # forward_losses es"
| "forward_losses (e # es) = forward_losses es"

text \<open>The losses of the micro-batches trained on up to iteration \<open>i\<close>, oldest first.\<close>

definition losses_upto :: "nat \<Rightarrow> ('m, 'b) fit_state \<Rightarrow> real list" where
  "losses_upto i s = forward_losses (map snd (filter (\<lambda>p. fst p \<le> i) (trace s)))"

definition mean :: "real list \<Rightarrow> real" where
  "mean xs = sum_list xs / real (length xs)"

definition last_n :: "nat \<Rightarrow> 'a list \<Rightarrow> 'a list" where
  "last_n n xs = drop (length xs - n) xs"


text \<open>
  What one iteration is to write, in the words of the contract: the forward pass and the
  backward pass on the scaled loss, without gradient synchronisation while
  accumulating; the update of the optimizer when the iteration number \<open>i\<close> is a
  multiple of the accumulation count; the metrics every \<open>log_interval\<close> iterations;
  validation and the checkpoint after an update, when the new step count \<open>sc\<close> is a
  multiple of their intervals. \<open>w\<close> is the window of the running mean after this
  iteration, \<open>b\<close> the batch and \<open>l\<close> its loss.
\<close>

definition expected_events ::
  "('m, 'b) fit_env \<Rightarrow> nat \<Rightarrow> nat \<Rightarrow> real list \<Rightarrow> 'b \<Rightarrow> real \<Rightarrow> 'b event list" where
  "expected_events E i sc w b l =
     (let gai = gradient_accumulation_iters (env_train E);
          stepping = (gai dvd i)
      in [Forward b l, Backward (\<not> stepping) (l / real gai)]
         @ (if stepping then [OptimizerStep, ZeroGrad, SchedulerStep, StepCount sc] else [])
         @ (if log_interval (env_train E) dvd i then [LogDict (mean w) i sc] else [])
         @ (if stepping \<and> interval (env_eval E) dvd sc
            then [Validating (max_iters (env_eval E)),
                  Generate instruction (fw_encoded_len E + the (max_new_tokens (env_eval E)))]
            else [])
         @ (if stepping \<and> save_interval (env_train E) dvd sc
            then [Save (checkpoint_path (env_io E) sc)] else []))"

section \<open>A small run, to evaluate the loop on\<close>

text \<open>
  Two train batches, 10 and 20, that do not shuffle; the loss of a batch is its number;
  the model counts the optimizer steps. Two micro-batches make one step, and every step
  is validated and saved.
\<close>

definition example_env :: "(nat, nat) fit_env" where
  "example_env =
     \<lparr>fw_forward_loss = (\<lambda>m b. real b),
      fw_backward = (\<lambda>no_sync x b m. m),
      fw_optimizer_step = Suc,
      fw_zero_grad = (\<lambda>m. m),
      fw_scheduler_step = (\<lambda>m. m),
      fw_randperm = (\<lambda>g xs. if even (snd g) then xs else rev xs),
      fw_validate_rng = draw,
      fw_encoded_len = 20,
      env_train_dataloader =
        \<lparr>tl_batches = [10, 20], tl_shuffle = False, tl_generator = None, tl_dataset_empty = False\<rparr>,
      env_val_batches = [1, 2],
      env_io = \<lparr>checkpoint_dir = Some ''checkpoints/x'', out_dir = ''out/full''\<rparr>,
      env_train =
        \<lparr>save_interval = 1, log_interval = 1, micro_batch_size = 1,
         gradient_accumulation_iters = 2, lr_warmup_steps = 100, epochs = Some 1,
         max_tokens = None, max_steps = None, max_seq_length = None, max_norm = None,
         learning_rate = 3 / 1000\<rparr>,
      env_eval = \<lparr>interval = 1, max_new_tokens = Some 100, max_iters = 2\<rparr>\<rparr>"

text \<open>The state of the run when the loop starts, and after two iterations.\<close>

definition example_start :: "(nat, nat) fit_state" where
  "example_start =
     \<lparr>model = 0, iter_num = 0, step_count = 0, epoch = 0, remaining = None,
      loader_rng = None, global_rng = (1337, 1), running_loss = [],
      trace = [(0, Validating 2), (0, Generate instruction 120)]\<rparr>"

definition example_end :: "(nat, nat) fit_state" where
  "example_end =
     \<lparr>model = 1, iter_num = 2, step_count = 1, epoch = 0, remaining = Some [],
      loader_rng = None, global_rng = (1337, 2), running_loss = [10, 20],
      trace =
        [(0, Validating 2), (0, Generate instruction 120),
         (1, Forward 10 10), (1, Backward True 5), (1, LogDict 10 1 0),
         (2, Forward 20 20), (2, Backward False 10), (2, OptimizerStep),
         (2, ZeroGrad), (2, SchedulerStep), (2, StepCount 1),
         (2, LogDict 15 2 1), (2, Validating 2), (2, Generate instruction 120),
         (2, Save ''out/full/step-000001.pth'')]\<rparr>"

section \<open>Resuming a run\<close>


text \<open>The batches an iteration trained on, as the trace has them.\<close>

fun forward_batches :: "'b event list \<Rightarrow> 'b list" where
  "forward_batches [] = []"
| "forward_batches (Forward b l # es) = b # forward_batches es"
| "forward_batches (e # es) = forward_batches es"


definition consumed_at :: "nat \<Rightarrow> ('m, 'b) fit_state \<Rightarrow> 'b list" where
  "consumed_at i s = forward_batches (iteration_events i s)"







text \<open>
  The words of the contract on resuming. The batches a run trained on from iteration
  \<open>n + 1\<close> on, in order; the train loader that draws its orders from a generator of
  its own, or does not shuffle; and two states that agree on what the loop goes on from:
  the model, the two counters, the place in the data (the epoch, the rest of the current
  pass, the generator of the loader) and the batches trained on after iteration \<open>n\<close>.
  They may differ in the generator of the process, in the window of the running mean
  and in what was written up to iteration \<open>n\<close>.
\<close>

definition consumed_after :: "nat \<Rightarrow> ('m, 'b) fit_state \<Rightarrow> 'b list" where
  "consumed_after n s = forward_batches (map snd (filter (\<lambda>p. n < fst p) (trace s)))"

definition own_shuffle :: "('m, 'b) fit_env \<Rightarrow> ('m, 'b) fit_state \<Rightarrow> bool" where
  "own_shuffle E s = (tl_shuffle (env_train_dataloader E) \<longrightarrow> loader_rng s \<noteq> None)"

definition same_place :: "('m, 'b) fit_state \<Rightarrow> ('m, 'b) fit_state \<Rightarrow> bool" where
  "same_place s r =
     (epoch s = epoch r \<and> remaining s = remaining r \<and> loader_rng s = loader_rng r)"


section \<open>The Alpaca prompt template\<close>

lemma variants_differ: "input_variant a b \<noteq> no_input_variant c"
  by (simp add: input_variant_def no_input_variant_def)

lemma prompt_template_never_no_input: "prompt_template example \<noteq> Inr (no_input_variant c)"
  by (simp add: prompt_template_def builtin_input_truthy_def lookup_def variants_differ
      split: option.splits)

text \<open>
  C8. For every example that has the two fields the template reads, also when its
  \<open>input\<close> is the empty string, \<open>prompt_template\<close> returns the variant with the
  \<open>### Input:\<close> section; the variant without it is returned for no example at all.
  An example that lacks one of the two fields raises \<open>KeyError\<close>, so there too the
  second variant is not returned.
\<close>

theorem prompt_template_input_variant:
  "(\<forall>example instruction inp.
      example ''instruction'' = Some instruction \<and> example ''input'' = Some inp \<longrightarrow>
      prompt_template example = Inr (input_variant instruction inp)
      \<and> (\<exists>before after. input_variant instruction inp
             = before @ ''### Input:\<newline>'' @ inp @ after))
   \<and> (\<forall>example instruction.
        example ''instruction'' = Some instruction \<and> example ''input'' = Some '''' \<longrightarrow>
        prompt_template example = Inr (input_variant instruction ''''))
   \<and> (\<forall>example instruction. prompt_template example \<noteq> Inr (no_input_variant instruction))"
proof (intro conjI allI impI)
  fix example :: "string \<rightharpoonup> string" and instruction inp
  assume h: "example ''instruction'' = Some instruction \<and> example ''input'' = Some inp"
  then show "prompt_template example = Inr (input_variant instruction inp)"
    by (simp add: prompt_template_def builtin_input_truthy_def lookup_def)
  have "input_variant instruction inp
      = (''Below is an instruction that describes a task, paired with an input that provides further context. ''
         @ ''Write a response that appropriately completes the request.\<newline>\<newline>''
         @ ''### Instruction:\<newline>'' @ instruction @ ''\<newline>\<newline>'')
        @ ''### Input:\<newline>'' @ inp @ ''\<newline>\<newline>### Response:\<newline>''"
    by (simp add: input_variant_def)
  then show "\<exists>before after. input_variant instruction inp
      = before @ ''### Input:\<newline>'' @ inp @ after"
    by blast
next
  fix example :: "string \<rightharpoonup> string" and instruction
  assume "example ''instruction'' = Some instruction \<and> example ''input'' = Some ''''"
  then show "prompt_template example = Inr (input_variant instruction '''')"
    by (simp add: prompt_template_def builtin_input_truthy_def lookup_def)
next
  fix example :: "string \<rightharpoonup> string" and instruction
  show "prompt_template example \<noteq> Inr (no_input_variant instruction)"
    by (rule prompt_template_never_no_input)
qed

theorem prompt_template_input_variant_witness:
  "prompt_template [''instruction'' \<mapsto> ''Say hi'', ''input'' \<mapsto> '''', ''output'' \<mapsto> ''hi'']
     = Inr (input_variant ''Say hi'' '''')
   \<and> prompt_template [''instruction'' \<mapsto> ''Say hi'', ''input'' \<mapsto> '''', ''output'' \<mapsto> ''hi'']
     \<noteq> Inr (no_input_variant ''Say hi'')"
proof -
  let ?ex = "[''instruction'' \<mapsto> ''Say hi'', ''input'' \<mapsto> '''', ''output'' \<mapsto> ''hi'']
               :: string \<rightharpoonup> string"
  have keys: "?ex ''instruction'' = Some ''Say hi'' \<and> ?ex ''input'' = Some ''''"
    by simp
  from prompt_template_input_variant have
    a: "\<forall>example instruction.
          example ''instruction'' = Some instruction \<and> example ''input'' = Some '''' \<longrightarrow>
          prompt_template example = Inr (input_variant instruction '''')"
    and b: "\<forall>example instruction. prompt_template example \<noteq> Inr (no_input_variant instruction)"
    by blast+
  from a keys have "prompt_template ?ex = Inr (input_variant ''Say hi'' '''')"
    by blast
  moreover from b have "prompt_template ?ex \<noteq> Inr (no_input_variant ''Say hi'')"
    by blast
  ultimately show ?thesis by blast
qed

lemma py_range_step2:
  "py_range (2 * int j) (int n - 1) 2 = map (\<lambda>k. 2 * int k) [j..<n div 2]"
proof (induction "n div 2 - j" arbitrary: j)
  case 0
  then have "\<not> (2 * int j < int n - 1)" by linarith
  moreover have "[j..<n div 2] = []" using 0 by simp
  ultimately show ?case by (simp add: py_range.simps)
next
  case (Suc d)
  then have lt: "j < n div 2" by linarith
  then have "2 * int j < int n - 1" by linarith
  then have "py_range (2 * int j) (int n - 1) 2 = 2 * int j # py_range (2 * int (Suc j)) (int n - 1) 2"
    by (subst py_range.simps) (simp add: algebra_simps)
  also have "py_range (2 * int (Suc j)) (int n - 1) 2 = map (\<lambda>k. 2 * int k) [Suc j..<n div 2]"
    using Suc by (intro Suc.hyps(1)) auto
  finally show ?case using lt by (simp add: upt_conv_Cons)
qed

lemma multi_turn_records_pairs:
  "j \<le> length convo div 2 \<Longrightarrow>
   multi_turn_records sel convo (map (\<lambda>k. 2 * int k) [j..<length convo div 2])
     = Inr (map (\<lambda>k. sft (sel (convo ! (2 * k))) (sel (convo ! (2 * k + 1)))) [j..<length convo div 2])"
proof (induction "length convo div 2 - j" arbitrary: j)
  case 0
  then show ?case by simp
next
  case (Suc d)
  then have lt: "j < length convo div 2" by linarith
  then have a: "2 * j < length convo" and b: "2 * j + 1 < length convo" by linarith+
  have g1: "getitem convo (2 * int j) = Inr (convo ! (2 * j))"
    using a by (simp add: getitem_def Let_def nat_mult_distrib)
  have g2: "getitem convo (2 * int j + 1) = Inr (convo ! (2 * j + 1))"
    using b by (simp add: getitem_def Let_def nat_add_distrib nat_mult_distrib)
  have ih: "multi_turn_records sel convo (map (\<lambda>k. 2 * int k) [Suc j..<length convo div 2])
     = Inr (map (\<lambda>k. sft (sel (convo ! (2 * k))) (sel (convo ! (2 * k + 1)))) [Suc j..<length convo div 2])"
    using Suc lt by (intro Suc.hyps(1)) auto
  show ?case using lt g1 g2 ih by (simp add: upt_conv_Cons sft_def)
qed

lemma multi_turn_all:
  "multi_turn_records sel convo (py_range 0 (int (length convo) - 1) 2) = Inr (turn_pairs sel convo)"
  using py_range_step2 [of 0 "length convo"] multi_turn_records_pairs [of 0 convo sel]
  by (simp add: turn_pairs_def)

lemma first_turn_ok:
  "2 \<le> length convo \<Longrightarrow>
   first_turn_record sel convo = Inr [sft (sel (convo ! 0)) (sel (convo ! 1))]"
  by (auto simp add: first_turn_record_def getitem_def Let_def sft_def)

lemma format_conversations_multi:
  "format_conversations sel cs True = Inr (concat (map (turn_pairs sel) cs))"
  by (induction cs) (simp_all add: multi_turn_all)

lemma format_conversations_single:
  "\<forall>c\<in>set cs. 2 \<le> length c \<Longrightarrow>
   format_conversations sel cs False
     = Inr (map (\<lambda>c. sft (sel (c ! 0)) (sel (c ! 1))) cs)"
  by (induction cs) (simp_all add: first_turn_ok)

lemma format_conversations_records:
  "format_conversations sel cs multi = Inr rs \<Longrightarrow> r \<in> set rs \<Longrightarrow>
   map fst r = [''instruction'', ''input'', ''output''] \<and> map_of r ''input'' = Some ''''"
proof (cases multi)
  case True
  assume "format_conversations sel cs multi = Inr rs" and "r \<in> set rs"
  with True have "r \<in> set (concat (map (turn_pairs sel) cs))"
    by (simp add: format_conversations_multi)
  then obtain a b where "r = sft a b"
    by (auto simp: turn_pairs_def)
  then show ?thesis by (simp add: sft_def)
next
  case False
  assume res: "format_conversations sel cs multi = Inr rs" and mem: "r \<in> set rs"
  have every: "\<And>rs. format_conversations sel cs False = Inr rs \<Longrightarrow> \<forall>r\<in>set rs. \<exists>a b. r = sft a b"
  proof (induction cs)
    case Nil
    then show ?case by simp
  next
    case (Cons c cs)
    then show ?case
      by (auto simp: first_turn_record_def sft_def split: sum.splits)
  qed
  from res False have "format_conversations sel cs False = Inr rs" by simp
  from every [OF this] mem obtain a b where "r = sft a b" by blast
  then show ?thesis by (simp add: sft_def)
qed

text \<open>
  C7. For a partition whose conversations all have at least two turns, both
  \<open>format_dataset\<close> functions return, and every record returned has exactly the keys
  \<open>instruction\<close>, \<open>input\<close>, \<open>output\<close>, with \<open>input\<close> the empty string.
  Without multi-turn conversations the result is one record per conversation, from its
  turns 0 and 1; with them it is, per conversation, one record for each pair of turns
  \<open>(2k, 2k + 1)\<close> that the conversation holds in full.
\<close>

theorem format_dataset_contract:
  assumes "\<forall>e\<in>set dp. 2 \<le> length (messages e)"
    and "\<forall>e\<in>set lp. 2 \<le> length (conversations e)"
  shows "format_dataset_deita dp False
           = Inr (map (\<lambda>e. sft (content (messages e ! 0)) (content (messages e ! 1))) dp)
       \<and> format_dataset_deita dp True
           = Inr (concat (map (\<lambda>e. turn_pairs content (messages e)) dp))
       \<and> format_dataset_lima lp False
           = Inr (map (\<lambda>e. sft (conversations e ! 0) (conversations e ! 1)) lp)
       \<and> format_dataset_lima lp True
           = Inr (concat (map (\<lambda>e. turn_pairs (\<lambda>t. t) (conversations e)) lp))
       \<and> (\<forall>multi. \<exists>rs. format_dataset_deita dp multi = Inr rs
             \<and> (\<forall>r\<in>set rs. map fst r = [''instruction'', ''input'', ''output'']
                   \<and> map_of r ''input'' = Some ''''))
       \<and> (\<forall>multi. \<exists>rs. format_dataset_lima lp multi = Inr rs
             \<and> (\<forall>r\<in>set rs. map fst r = [''instruction'', ''input'', ''output'']
                   \<and> map_of r ''input'' = Some ''''))"
proof -
  have d: "\<forall>c\<in>set (map messages dp). 2 \<le> length c"
    using assms(1) by simp
  have l: "\<forall>c\<in>set (map conversations lp). 2 \<le> length c"
    using assms(2) by simp
  have d1: "format_dataset_deita dp False
      = Inr (map (\<lambda>e. sft (content (messages e ! 0)) (content (messages e ! 1))) dp)"
    unfolding format_dataset_deita_def
    by (simp add: format_conversations_single [OF d] comp_def)
  have d2: "format_dataset_deita dp True
      = Inr (concat (map (\<lambda>e. turn_pairs content (messages e)) dp))"
    unfolding format_dataset_deita_def
    by (simp add: format_conversations_multi comp_def)
  have l1: "format_dataset_lima lp False
      = Inr (map (\<lambda>e. sft (conversations e ! 0) (conversations e ! 1)) lp)"
    unfolding format_dataset_lima_def
    by (simp add: format_conversations_single [OF l] comp_def)
  have l2: "format_dataset_lima lp True
      = Inr (concat (map (\<lambda>e. turn_pairs (\<lambda>t. t) (conversations e)) lp))"
    unfolding format_dataset_lima_def
    by (simp add: format_conversations_multi comp_def)
  have d3: "\<exists>rs. format_dataset_deita dp multi = Inr rs
      \<and> (\<forall>r\<in>set rs. map fst r = [''instruction'', ''input'', ''output'']
            \<and> map_of r ''input'' = Some '''')" for multi
  proof -
    obtain rs where rs: "format_dataset_deita dp multi = Inr rs"
      using d1 d2 by (cases multi) auto
    then show ?thesis
      using format_conversations_records [of content "map messages dp" multi rs]
      by (auto simp: format_dataset_deita_def)
  qed
  have l3: "\<exists>rs. format_dataset_lima lp multi = Inr rs
      \<and> (\<forall>r\<in>set rs. map fst r = [''instruction'', ''input'', ''output'']
            \<and> map_of r ''input'' = Some '''')" for multi
  proof -
    obtain rs where rs: "format_dataset_lima lp multi = Inr rs"
      using l1 l2 by (cases multi) auto
    then show ?thesis
      using format_conversations_records [of "\<lambda>t. t" "map conversations lp" multi rs]
      by (auto simp: format_dataset_lima_def)
  qed
  from d1 d2 l1 l2 d3 l3 show ?thesis by blast
qed

theorem format_dataset_contract_witness:
  "format_dataset_deita
     [\<lparr>messages = [\<lparr>role = ''user'', content = ''q1''\<rparr>, \<lparr>role = ''assistant'', content = ''a1''\<rparr>,
                   \<lparr>role = ''user'', content = ''q2''\<rparr>]\<rparr>] True
     = Inr [[(''instruction'', ''q1''), (''input'', ''''), (''output'', ''a1'')]]
   \<and> format_dataset_lima
        [\<lparr>conversations = [''q1'', ''a1'', ''q2'', ''a2'']\<rparr>, \<lparr>conversations = [''q3'', ''a3'']\<rparr>] True
     = Inr [[(''instruction'', ''q1''), (''input'', ''''), (''output'', ''a1'')],
            [(''instruction'', ''q2''), (''input'', ''''), (''output'', ''a2'')],
            [(''instruction'', ''q3''), (''input'', ''''), (''output'', ''a3'')]]
   \<and> format_dataset_lima
        [\<lparr>conversations = [''q1'', ''a1'', ''q2'', ''a2'']\<rparr>, \<lparr>conversations = [''q3'', ''a3'']\<rparr>] False
     = Inr [[(''instruction'', ''q1''), (''input'', ''''), (''output'', ''a1'')],
            [(''instruction'', ''q3''), (''input'', ''''), (''output'', ''a3'')]]"
proof -
  let ?dp = "[\<lparr>messages = [\<lparr>role = ''user'', content = ''q1''\<rparr>,
                \<lparr>role = ''assistant'', content = ''a1''\<rparr>, \<lparr>role = ''user'', content = ''q2''\<rparr>]\<rparr>]"
  let ?lp = "[\<lparr>conversations = [''q1'', ''a1'', ''q2'', ''a2'']\<rparr>, \<lparr>conversations = [''q3'', ''a3'']\<rparr>]"
  have hd: "\<forall>e\<in>set ?dp. 2 \<le> length (messages e)" by simp
  have hl: "\<forall>e\<in>set ?lp. 2 \<le> length (conversations e)" by simp
  have upt2: "[0..<2] = [0, Suc 0]" by (simp add: upt_conv_Cons)
  show ?thesis
    using format_dataset_contract [OF hd hl]
    by (simp add: turn_pairs_def sft_def upt2)
qed

section \<open>The checkpoint downloader\<close>

text \<open>
  C10, as stated, fails twice. With \<open>repo_id = None\<close> the options are printed and the
  call returns also when \<open>tokenizer_only\<close> and \<open>from_safetensors\<close> are both true: no
  \<open>ValueError\<close>. And a call outside the listed cases does not always reach the
  download: when the weights are asked for as safetensors and the package is not
  installed, it raises \<open>ModuleNotFoundError\<close> first.
\<close>

theorem download_from_hub_counterexample:
  "\<not> is_value_error
       (download_from_hub
          \<lparr>safetensors_available = True, safetensors_text = '''', config_options = [''a/b'']\<rparr>
          None None True True ''checkpoints'')
   \<and> \<not> gated_repo ''EleutherAI/pythia-70m''
   \<and> \<not> is_download
       (download_from_hub
          \<lparr>safetensors_available = False, safetensors_text = ''no safetensors'',
           config_options = []\<rparr>
          (Some ''EleutherAI/pythia-70m'') (Some ''hf_token'') True False ''checkpoints'')
   \<and> download_from_hub
          \<lparr>safetensors_available = False, safetensors_text = ''no safetensors'',
           config_options = []\<rparr>
          (Some ''EleutherAI/pythia-70m'') (Some ''hf_token'') True False ''checkpoints''
       = Inl (ModuleNotFoundError ''no safetensors'')"
  by (simp add: download_from_hub_def is_value_error_def is_download_def gated_repo_def
      falsy_token_def)

text \<open>
  C10, amended. With \<open>repo_id = None\<close> the call prints the options and returns, whatever
  the other arguments. With a repository name it raises \<open>ValueError\<close> when the name
  contains \<open>meta-llama\<close> or \<open>falcon-180\<close> and the token is missing or empty; otherwise
  it raises \<open>ValueError\<close> when \<open>tokenizer_only\<close> and \<open>from_safetensors\<close> are both
  true, and \<open>ModuleNotFoundError\<close> when \<open>from_safetensors\<close> is true,
  \<open>tokenizer_only\<close> is false and the safetensors package is not installed. In every
  other case, and in none of these, \<open>snapshot_download\<close> is called, for that repository.
\<close>

theorem download_from_hub_cases:
  "download_from_hub env None tok fs tonly dir
     = Inr (Printed (''Please specify --repo_id <repo_id>. Available values:'' # config_options env))
   \<and> (gated_repo r \<and> falsy_token tok \<longrightarrow>
        download_from_hub env (Some r) tok fs tonly dir = Inl (ValueError (authentication_message r)))
   \<and> (\<not> (gated_repo r \<and> falsy_token tok) \<and> tonly \<and> fs \<longrightarrow>
        is_value_error (download_from_hub env (Some r) tok fs tonly dir))
   \<and> (\<not> (gated_repo r \<and> falsy_token tok) \<and> \<not> tonly \<and> fs \<and> \<not> safetensors_available env \<longrightarrow>
        download_from_hub env (Some r) tok fs tonly dir
          = Inl (ModuleNotFoundError (safetensors_text env)))
   \<and> (\<not> (gated_repo r \<and> falsy_token tok) \<and> \<not> (tonly \<and> fs)
        \<and> \<not> (fs \<and> \<not> safetensors_available env) \<longrightarrow>
        (\<exists>c. download_from_hub env (Some r) tok fs tonly dir = Inr (Downloaded c fs)
             \<and> repo c = r \<and> token c = tok))
   \<and> (is_download (download_from_hub env rid tok fs tonly dir) \<longleftrightarrow>
        (\<exists>r'. rid = Some r' \<and> \<not> (gated_repo r' \<and> falsy_token tok) \<and> \<not> (tonly \<and> fs)
              \<and> \<not> (fs \<and> \<not> safetensors_available env)))"
  by (cases rid)
     (auto simp add: download_from_hub_def gated_repo_def is_value_error_def is_download_def Let_def)

theorem download_from_hub_cases_witness:
  "download_from_hub
     \<lparr>safetensors_available = True, safetensors_text = '''', config_options = []\<rparr>
     (Some ''meta-llama/Llama-2-7b-hf'') None False False ''checkpoints''
     = Inl (ValueError (authentication_message ''meta-llama/Llama-2-7b-hf''))
   \<and> is_value_error
       (download_from_hub
          \<lparr>safetensors_available = True, safetensors_text = '''', config_options = []\<rparr>
          (Some ''EleutherAI/pythia-70m'') None True True ''checkpoints'')
   \<and> (\<exists>c. download_from_hub
          \<lparr>safetensors_available = True, safetensors_text = '''', config_options = []\<rparr>
          (Some ''EleutherAI/pythia-70m'') None False False ''checkpoints''
          = Inr (Downloaded c False) \<and> repo c = ''EleutherAI/pythia-70m'' \<and> token c = None)"
proof -
  let ?env = "\<lparr>safetensors_available = True, safetensors_text = '''', config_options = []\<rparr>"
  have g1: "gated_repo ''meta-llama/Llama-2-7b-hf'' \<and> falsy_token None"
    by (simp add: gated_repo_def falsy_token_def)
  have g2: "\<not> (gated_repo ''EleutherAI/pythia-70m'' \<and> falsy_token None)"
    by (simp add: gated_repo_def)
  have e: "safetensors_available ?env" by simp
  from download_from_hub_cases [of ?env None False False "''checkpoints''"
      "''meta-llama/Llama-2-7b-hf''" None] g1
  have a: "download_from_hub ?env (Some ''meta-llama/Llama-2-7b-hf'') None False False ''checkpoints''
      = Inl (ValueError (authentication_message ''meta-llama/Llama-2-7b-hf''))"
    by blast
  from download_from_hub_cases [of ?env None True True "''checkpoints''"
      "''EleutherAI/pythia-70m''" None] g2
  have b: "is_value_error
      (download_from_hub ?env (Some ''EleutherAI/pythia-70m'') None True True ''checkpoints'')"
    by blast
  from download_from_hub_cases [of ?env None False False "''checkpoints''"
      "''EleutherAI/pythia-70m''" None] g2
  have c: "\<exists>c. download_from_hub ?env (Some ''EleutherAI/pythia-70m'') None False False ''checkpoints''
      = Inr (Downloaded c False) \<and> repo c = ''EleutherAI/pythia-70m'' \<and> token c = None"
    by blast
  from a b c show ?thesis by blast
qed

section \<open>What \<open>connect\<close> stores\<close>

text \<open>
  C6, as stated, fails: \<open>TinyStories.connect\<close> stores \<open>max_seq_length + 1\<close> (the sample
  needs the next token as well), and the loaders it builds afterwards read blocks of that
  length. Called with \<open>max_seq_length = 10\<close>, neither the stored value nor the block
  size of the train loader is 10.
\<close>

theorem connect_counterexample:
  "ts_max_seq_length
     (tinystories_connect (tinystories_init ''data/tinystories'' 42 8) (Some ''tok'') 4 10) = 11
   \<and> sl_block_size
       (tinystories_train_dataloader
          (tinystories_connect (tinystories_init ''data/tinystories'' 42 8) (Some ''tok'') 4 10)) = 11
   \<and> sl_block_size
       (tinystories_train_dataloader
          (tinystories_connect (tinystories_init ''data/tinystories'' 42 8) (Some ''tok'') 4 10)) \<noteq> 10"
  by (simp add: tinystories_connect_def tinystories_init_def tinystories_train_dataloader_def)

text \<open>
  C6, amended. \<open>Deita.connect\<close> and \<open>TinyStories.connect\<close> store the tokenizer and the
  batch size as given. Deita stores \<open>max_seq_length\<close> as given, and \<open>-1\<close> for \<open>None\<close>;
  TinyStories stores \<open>max_seq_length + 1\<close>. The loaders and datasets built afterwards
  use the stored values: the batch size in every loader, Deita's tokenizer and
  \<open>max_seq_length\<close> in its datasets and collate function, TinyStories'
  \<open>max_seq_length + 1\<close> as the block size. Alpaca and LIMA, which have no \<open>connect\<close>,
  take the three values in their constructor, store them as given (a tokenizer given as
  an object), and their loaders use them.
\<close>

theorem connect_contract:
  "(\<forall>d'. deita_setup (deita_connect d tok bs (Some m)) parts = Inr d' \<longrightarrow>
         dl_batch_size (deita_train_dataloader d') = bs
         \<and> dl_collate_max_seq_length (deita_train_dataloader d') = m
         \<and> (\<exists>ds. dl_dataset (deita_train_dataloader d') = Some ds
               \<and> sd_tokenizer ds = tok \<and> sd_max_seq_length ds = m)
         \<and> (\<exists>ds. dl_dataset (deita_val_dataloader d') = Some ds
               \<and> sd_tokenizer ds = tok \<and> sd_max_seq_length ds = m))
   \<and> (\<forall>l. lima_init load (Given tk) n mp ii sd mt rid acc bs nw = Inr l \<longrightarrow>
         lima_tokenizer l = tk
         \<and> dl_batch_size (lima_train_dataloader l) = bs
         \<and> dl_collate_max_seq_length (lima_train_dataloader l) = n
         \<and> dl_batch_size (lima_val_dataloader l) = bs
         \<and> dl_collate_max_seq_length (lima_val_dataloader l) = n)
   \<and> deita_tokenizer (deita_connect d tok bs msl) = tok
   \<and> deita_batch_size (deita_connect d tok bs msl) = bs
   \<and> deita_max_seq_length (deita_connect d tok bs msl) = (case msl of None \<Rightarrow> - 1 | Some m \<Rightarrow> m)
   \<and> dl_batch_size (deita_train_dataloader (deita_connect d tok bs msl)) = bs
   \<and> dl_batch_size (deita_val_dataloader (deita_connect d tok bs msl)) = bs
   \<and> dl_collate_max_seq_length (deita_train_dataloader (deita_connect d tok bs (Some m))) = m
   \<and> dl_collate_max_seq_length (deita_val_dataloader (deita_connect d tok bs (Some m))) = m
   \<and> ts_tokenizer (tinystories_connect t tok bs n) = tok
   \<and> ts_batch_size (tinystories_connect t tok bs n) = bs
   \<and> ts_max_seq_length (tinystories_connect t tok bs n) = n + 1
   \<and> sl_batch_size (tinystories_train_dataloader (tinystories_connect t tok bs n)) = bs
   \<and> sl_batch_size (tinystories_val_dataloader (tinystories_connect t tok bs n)) = bs
   \<and> sl_block_size (tinystories_train_dataloader (tinystories_connect t tok bs n)) = n + 1
   \<and> sl_block_size (tinystories_val_dataloader (tinystories_connect t tok bs n)) = n + 1
   \<and> alpaca_tokenizer (alpaca_init load (Given tk) n mp ii sd bs nw) = tk
   \<and> dl_batch_size (alpaca_train_dataloader (alpaca_init load (Given tk) n mp ii sd bs nw)) = bs
   \<and> dl_collate_max_seq_length
       (alpaca_train_dataloader (alpaca_init load (Given tk) n mp ii sd bs nw)) = n
   \<and> dl_batch_size (alpaca_val_dataloader (alpaca_init load (Given tk) n mp ii sd bs nw)) = bs
   \<and> dl_collate_max_seq_length
       (alpaca_val_dataloader (alpaca_init load (Given tk) n mp ii sd bs nw)) = n"
proof -
  have deita: "deita_tokenizer (deita_connect d tok bs msl) = tok
   \<and> deita_batch_size (deita_connect d tok bs msl) = bs
   \<and> deita_max_seq_length (deita_connect d tok bs msl) = (case msl of None \<Rightarrow> - 1 | Some m \<Rightarrow> m)
   \<and> dl_batch_size (deita_train_dataloader (deita_connect d tok bs msl)) = bs
   \<and> dl_batch_size (deita_val_dataloader (deita_connect d tok bs msl)) = bs
   \<and> dl_collate_max_seq_length (deita_train_dataloader (deita_connect d tok bs (Some m))) = m
   \<and> dl_collate_max_seq_length (deita_val_dataloader (deita_connect d tok bs (Some m))) = m"
    by (simp add: deita_connect_def deita_train_dataloader_def deita_val_dataloader_def)
  have after_setup: "\<forall>d'. deita_setup (deita_connect d tok bs (Some m)) parts = Inr d' \<longrightarrow>
         dl_batch_size (deita_train_dataloader d') = bs
         \<and> dl_collate_max_seq_length (deita_train_dataloader d') = m
         \<and> (\<exists>ds. dl_dataset (deita_train_dataloader d') = Some ds
               \<and> sd_tokenizer ds = tok \<and> sd_max_seq_length ds = m)
         \<and> (\<exists>ds. dl_dataset (deita_val_dataloader d') = Some ds
               \<and> sd_tokenizer ds = tok \<and> sd_max_seq_length ds = m)"
    by (auto simp add: deita_setup_def deita_connect_def deita_train_dataloader_def
        deita_val_dataloader_def split: sum.splits)
  have ts: "ts_tokenizer (tinystories_connect t tok bs n) = tok
   \<and> ts_batch_size (tinystories_connect t tok bs n) = bs
   \<and> ts_max_seq_length (tinystories_connect t tok bs n) = n + 1
   \<and> sl_batch_size (tinystories_train_dataloader (tinystories_connect t tok bs n)) = bs
   \<and> sl_batch_size (tinystories_val_dataloader (tinystories_connect t tok bs n)) = bs
   \<and> sl_block_size (tinystories_train_dataloader (tinystories_connect t tok bs n)) = n + 1
   \<and> sl_block_size (tinystories_val_dataloader (tinystories_connect t tok bs n)) = n + 1"
    by (simp add: tinystories_connect_def tinystories_train_dataloader_def
        tinystories_val_dataloader_def)
  have al: "alpaca_tokenizer (alpaca_init load (Given tk) n mp ii sd bs nw) = tk
   \<and> dl_batch_size (alpaca_train_dataloader (alpaca_init load (Given tk) n mp ii sd bs nw)) = bs
   \<and> dl_collate_max_seq_length
       (alpaca_train_dataloader (alpaca_init load (Given tk) n mp ii sd bs nw)) = n
   \<and> dl_batch_size (alpaca_val_dataloader (alpaca_init load (Given tk) n mp ii sd bs nw)) = bs
   \<and> dl_collate_max_seq_length
       (alpaca_val_dataloader (alpaca_init load (Given tk) n mp ii sd bs nw)) = n"
    by (simp add: alpaca_init_def alpaca_train_dataloader_def alpaca_val_dataloader_def)
  have li: "\<forall>l. lima_init load (Given tk) n mp ii sd mt rid acc bs nw = Inr l \<longrightarrow>
         lima_tokenizer l = tk
         \<and> dl_batch_size (lima_train_dataloader l) = bs
         \<and> dl_collate_max_seq_length (lima_train_dataloader l) = n
         \<and> dl_batch_size (lima_val_dataloader l) = bs
         \<and> dl_collate_max_seq_length (lima_val_dataloader l) = n"
    by (auto simp add: lima_init_def lima_train_dataloader_def lima_val_dataloader_def
        split: option.splits)
  from after_setup li deita ts al show ?thesis by blast
qed

theorem connect_contract_witness:
  "(\<exists>d'. deita_setup (deita_connect deita_default (Some ''tok'') 2 (Some 10))
            ([\<lparr>messages = [\<lparr>role = ''user'', content = ''q''\<rparr>,
                            \<lparr>role = ''assistant'', content = ''a''\<rparr>]\<rparr>], []) = Inr d'
         \<and> dl_batch_size (deita_train_dataloader d') = 2
         \<and> dl_collate_max_seq_length (deita_train_dataloader d') = 10
         \<and> (\<exists>ds. dl_dataset (deita_train_dataloader d') = Some ds
               \<and> sd_tokenizer ds = Some ''tok'' \<and> sd_max_seq_length ds = 10))
   \<and> (\<exists>l. lima_init (\<lambda>p. p) (Given ''tok'') 10 True (- 1) 42 False ''GAIR/lima'' (Some ''hf'') 2 4
            = Inr l
         \<and> lima_tokenizer l = ''tok''
         \<and> dl_batch_size (lima_train_dataloader l) = 2
         \<and> dl_collate_max_seq_length (lima_train_dataloader l) = 10)"
proof -
  let ?train = "[\<lparr>messages = [\<lparr>role = ''user'', content = ''q''\<rparr>,
                            \<lparr>role = ''assistant'', content = ''a''\<rparr>]\<rparr>]"
  let ?self = "deita_connect deita_default (Some ''tok'') 2 (Some 10) :: string deita"
  have f1: "format_dataset_deita ?train False
      = Inr [[(''instruction'', ''q''), (''input'', []), (''output'', ''a'')]]"
    by (simp add: format_dataset_deita_def first_turn_record_def getitem_def Let_def)
  have f2: "format_dataset_deita [] False = Inr []"
    by (simp add: format_dataset_deita_def)
  have m: "deita_include_multiturn_conversations ?self = False"
    by (simp add: deita_connect_def deita_default_def)
  have "\<exists>d'. deita_setup ?self (?train, []) = Inr d'"
    by (simp add: deita_setup_def m f1 f2)
  then obtain d' where d': "deita_setup ?self (?train, []) = Inr d'" ..
  have "\<exists>l. lima_init (\<lambda>p. p) (Given ''tok'') 10 True (- 1) 42 False ''GAIR/lima'' (Some ''hf'') 2 4
      = Inr (l :: string lima)"
    by (simp add: lima_init_def)
  then obtain l :: "string lima"
    where l: "lima_init (\<lambda>p. p) (Given ''tok'') 10 True (- 1) 42 False ''GAIR/lima'' (Some ''hf'') 2 4
      = Inr l" ..
  note c = connect_contract [where d = "deita_default" and tok = "Some ''tok''" and bs = 2
      and m = 10 and parts = "(?train, [])" and load = "\<lambda>p. p" and tk = "''tok''" and n = 10
      and mp = True and ii = "- 1" and sd = 42 and mt = False and rid = "''GAIR/lima''"
      and acc = "Some ''hf''" and nw = 4]
  note x = c [THEN conjunct1]
  note y = c [THEN conjunct2, THEN conjunct1]
  let ?D = "\<lambda>d'. deita_setup ?self (?train, []) = Inr d'
         \<and> dl_batch_size (deita_train_dataloader d') = 2
         \<and> dl_collate_max_seq_length (deita_train_dataloader d') = 10
         \<and> (\<exists>ds. dl_dataset (deita_train_dataloader d') = Some ds
               \<and> sd_tokenizer ds = Some ''tok'' \<and> sd_max_seq_length ds = 10)"
  let ?L = "\<lambda>l. lima_init (\<lambda>p. p) (Given ''tok'') 10 True (- 1) 42 False ''GAIR/lima'' (Some ''hf'') 2 4
            = Inr l
         \<and> lima_tokenizer l = ''tok''
         \<and> dl_batch_size (lima_train_dataloader l) = 2
         \<and> dl_collate_max_seq_length (lima_train_dataloader l) = (10 :: int)"
  have a: "?D d'"
    using x [rule_format, OF d'] d' by simp
  have b: "?L l"
    using y [rule_format, OF l] l by simp
  have da: "\<exists>d'. ?D d'"
    using a by (rule exI [of ?D d'])
  have la: "\<exists>l. ?L l"
    using b by (rule exI [of ?L l])
  from da la show ?thesis by (rule conjI)
qed

section \<open>The argument check of \<open>main\<close>\<close>

lemma issues_of_empty: "issues_of T io train eval = [] \<longleftrightarrow> \<not> bad_arguments io train eval"
  by (simp add: issues_of_def bad_arguments_def)

lemma length_issues_of:
  "length (issues_of T io train eval)
     = (if max_tokens train \<noteq> None then 1 else 0) + (if max_norm train \<noteq> None then 1 else 0)
       + (if checkpoint_dir io = None then 1 else 0) + (if epochs train = None then 1 else 0)
       + (if max_new_tokens eval = None then 1 else 0)"
  by (simp add: issues_of_def)

text \<open>
  C9. \<open>validate_args\<close>, the first statement of \<open>main\<close>, raises \<open>ValueError\<close> exactly
  when \<open>train.max_tokens\<close> or \<open>train.max_norm\<close> is set, or \<open>io.checkpoint_dir\<close>,
  \<open>train.epochs\<close> or \<open>eval.max_new_tokens\<close> is \<open>None\<close>. The one exception carries
  one line for every issue found, joined by newlines, and \<open>main\<close> then ends with it
  having taken no step: nothing was built. With good arguments the check passes and
  \<open>main\<close> goes on.
\<close>

theorem validate_args_contract:
  "(bad_arguments io train eval \<longrightarrow>
      validate_args T io train eval = Inl (ValueError (join ''\<newline>'' (issues_of T io train eval)))
      \<and> main T io train eval rest
          = ([], Some (ValueError (join ''\<newline>'' (issues_of T io train eval)))))
   \<and> (\<not> bad_arguments io train eval \<longrightarrow>
        validate_args T io train eval = Inr () \<and> main T io train eval rest = rest)
   \<and> length (issues_of T io train eval)
       = (if max_tokens train \<noteq> None then 1 else 0) + (if max_norm train \<noteq> None then 1 else 0)
         + (if checkpoint_dir io = None then 1 else 0) + (if epochs train = None then 1 else 0)
         + (if max_new_tokens eval = None then 1 else 0)
   \<and> (max_tokens train \<noteq> None \<longrightarrow>
        unsupported_issue (file_name T) ''max_tokens'' (train_repr T) \<in> set (issues_of T io train eval))
   \<and> (max_norm train \<noteq> None \<longrightarrow>
        unsupported_issue (file_name T) ''max_norm'' (train_repr T) \<in> set (issues_of T io train eval))
   \<and> (checkpoint_dir io = None \<longrightarrow>
        required_issue (file_name T) ''checkpoint_dir'' (io_repr T) \<in> set (issues_of T io train eval))
   \<and> (epochs train = None \<longrightarrow>
        required_issue (file_name T) ''epochs'' (train_repr T) \<in> set (issues_of T io train eval))
   \<and> (max_new_tokens eval = None \<longrightarrow>
        required_issue (file_name T) ''max_new_tokens'' (eval_repr T) \<in> set (issues_of T io train eval))"
proof -
  have bad: "bad_arguments io train eval \<Longrightarrow> issues_of T io train eval \<noteq> []"
    by (simp add: issues_of_empty)
  have good: "\<not> bad_arguments io train eval \<Longrightarrow> issues_of T io train eval = []"
    by (simp add: issues_of_empty)
  have a: "bad_arguments io train eval \<longrightarrow>
      validate_args T io train eval = Inl (ValueError (join ''\<newline>'' (issues_of T io train eval)))
      \<and> main T io train eval rest
          = ([], Some (ValueError (join ''\<newline>'' (issues_of T io train eval))))"
    using bad by (simp add: validate_args_def main_def Let_def)
  have b: "\<not> bad_arguments io train eval \<longrightarrow>
      validate_args T io train eval = Inr () \<and> main T io train eval rest = rest"
    using good by (simp add: validate_args_def main_def Let_def)
  have c: "(max_tokens train \<noteq> None \<longrightarrow>
        unsupported_issue (file_name T) ''max_tokens'' (train_repr T) \<in> set (issues_of T io train eval))
   \<and> (max_norm train \<noteq> None \<longrightarrow>
        unsupported_issue (file_name T) ''max_norm'' (train_repr T) \<in> set (issues_of T io train eval))
   \<and> (checkpoint_dir io = None \<longrightarrow>
        required_issue (file_name T) ''checkpoint_dir'' (io_repr T) \<in> set (issues_of T io train eval))
   \<and> (epochs train = None \<longrightarrow>
        required_issue (file_name T) ''epochs'' (train_repr T) \<in> set (issues_of T io train eval))
   \<and> (max_new_tokens eval = None \<longrightarrow>
        required_issue (file_name T) ''max_new_tokens'' (eval_repr T) \<in> set (issues_of T io train eval))"
    by (simp add: issues_of_def)
  from a b c length_issues_of [of T io train eval] show ?thesis by blast
qed

theorem validate_args_contract_witness:
  "main \<lparr>file_name = ''full.py'', io_repr = ''IOArgs'', train_repr = ''TrainArgs'', eval_repr = ''EvalArgs''\<rparr>
     \<lparr>checkpoint_dir = None, out_dir = ''out/full''\<rparr>
     \<lparr>save_interval = 1000, log_interval = 1, micro_batch_size = 1, gradient_accumulation_iters = 64,
      lr_warmup_steps = 100, epochs = Some 5, max_tokens = None, max_steps = None,
      max_seq_length = None, max_norm = Some 1, learning_rate = 3 / 1000\<rparr>
     \<lparr>interval = 600, max_new_tokens = Some 100, max_iters = 100\<rparr>
     ([CheckCheckpointDir, BuildTokenizer], None)
   = ([], Some (ValueError
        (''full.py doesn't support the '' @ [CHR 0x27] @ ''max_norm'' @ [CHR 0x27]
           @ '' argument. This is set in TrainArgs''
         @ ''\<newline>''
         @ ''full.py requires the '' @ [CHR 0x27] @ ''checkpoint_dir'' @ [CHR 0x27]
           @ '' argument. This is set in IOArgs'')))
   \<and> main \<lparr>file_name = ''full.py'', io_repr = ''IOArgs'', train_repr = ''TrainArgs'', eval_repr = ''EvalArgs''\<rparr>
     \<lparr>checkpoint_dir = Some ''checkpoints/x'', out_dir = ''out/full''\<rparr>
     \<lparr>save_interval = 1000, log_interval = 1, micro_batch_size = 1, gradient_accumulation_iters = 64,
      lr_warmup_steps = 100, epochs = Some 5, max_tokens = None, max_steps = None,
      max_seq_length = None, max_norm = None, learning_rate = 3 / 1000\<rparr>
     \<lparr>interval = 600, max_new_tokens = Some 100, max_iters = 100\<rparr>
     ([CheckCheckpointDir, BuildTokenizer], None)
   = ([CheckCheckpointDir, BuildTokenizer], None)"
proof -
  let ?T = "\<lparr>file_name = ''full.py'', io_repr = ''IOArgs'', train_repr = ''TrainArgs'',
             eval_repr = ''EvalArgs''\<rparr>"
  let ?ev = "\<lparr>interval = 600, max_new_tokens = Some 100, max_iters = 100\<rparr>"
  let ?io1 = "\<lparr>checkpoint_dir = None, out_dir = ''out/full''\<rparr>"
  let ?io2 = "\<lparr>checkpoint_dir = Some ''checkpoints/x'', out_dir = ''out/full''\<rparr>"
  let ?tr1 = "\<lparr>save_interval = 1000, log_interval = 1, micro_batch_size = 1,
      gradient_accumulation_iters = 64, lr_warmup_steps = 100, epochs = Some 5, max_tokens = None,
      max_steps = None, max_seq_length = None, max_norm = Some 1, learning_rate = 3 / 1000\<rparr>"
  let ?tr2 = "\<lparr>save_interval = 1000, log_interval = 1, micro_batch_size = 1,
      gradient_accumulation_iters = 64, lr_warmup_steps = 100, epochs = Some 5, max_tokens = None,
      max_steps = None, max_seq_length = None, max_norm = None, learning_rate = 3 / 1000\<rparr>"
  let ?rest = "([CheckCheckpointDir, BuildTokenizer], None :: py_error option)"
  have bad: "bad_arguments ?io1 ?tr1 ?ev" by (simp add: bad_arguments_def)
  have good: "\<not> bad_arguments ?io2 ?tr2 ?ev" by (simp add: bad_arguments_def)
  have iss: "issues_of ?T ?io1 ?tr1 ?ev
      = [unsupported_issue ''full.py'' ''max_norm'' ''TrainArgs'',
         required_issue ''full.py'' ''checkpoint_dir'' ''IOArgs'']"
    by (simp add: issues_of_def)
  from validate_args_contract [of ?io1 ?tr1 ?ev ?T ?rest] bad
  have "main ?T ?io1 ?tr1 ?ev ?rest
      = ([], Some (ValueError (join ''\<newline>'' (issues_of ?T ?io1 ?tr1 ?ev))))"
    by blast
  then have a: "main ?T ?io1 ?tr1 ?ev ?rest
      = ([], Some (ValueError
        (''full.py doesn't support the '' @ [CHR 0x27] @ ''max_norm'' @ [CHR 0x27]
           @ '' argument. This is set in TrainArgs''
         @ ''\<newline>''
         @ ''full.py requires the '' @ [CHR 0x27] @ ''checkpoint_dir'' @ [CHR 0x27]
           @ '' argument. This is set in IOArgs'')))"
    unfolding iss by (simp add: unsupported_issue_def required_issue_def)
  from validate_args_contract [of ?io2 ?tr2 ?ev ?T ?rest] good
  have b: "main ?T ?io2 ?tr2 ?ev ?rest = ?rest"
    by blast
  from a b show ?thesis by blast
qed

section \<open>The learning-rate schedule\<close>

text \<open>
  C3. With a positive number of warm-up steps, \<open>get_lr_scheduler\<close> returns a schedule
  whose rate after \<open>t\<close> optimizer steps is the base rate times \<open>t / warmup_steps\<close>
  while \<open>t < warmup_steps\<close>, so 0 at the start, and from then on the cosine annealing
  of period \<open>max_steps - warmup_steps\<close>, counted from the end of the warm-up. \<open>main\<close>
  passes \<open>min(epochs * steps_per_epoch, max_steps or infinity)\<close> for \<open>max_steps\<close>,
  with \<open>steps_per_epoch = len(train_dataloader) // gradient_accumulation_iters\<close>.
\<close>

theorem lr_schedule_shape:
  assumes "0 < warmup"
  shows "\<exists>sch. get_lr_scheduler warmup lr_max = Inr sch
     \<and> lr_at sch base 0 = Inr 0
     \<and> (\<forall>t<warmup. lr_at sch base t = Inr (base * (real t / real warmup)))
     \<and> (\<forall>t\<ge>warmup. lr_max \<noteq> int warmup \<longrightarrow>
           lr_at sch base t
             = Inr (base * (1 + cos (pi * real (t - warmup) / real_of_int (lr_max - int warmup))) / 2))
     \<and> (\<forall>e. epochs train = Some e \<and> 0 < gradient_accumulation_iters train
              \<and> lr_warmup_steps train = warmup
              \<and> lr_max = (case or_inf (max_steps train) of
                            None \<Rightarrow> e * int (len div gradient_accumulation_iters train)
                          | Some m \<Rightarrow> min (e * int (len div gradient_accumulation_iters train)) m)
            \<longrightarrow> steps_per_epoch train len = Inr (int (len div gradient_accumulation_iters train))
               \<and> lr_max_steps train len = Inr lr_max
               \<and> main_scheduler train len = Inr sch)"
proof -
  define sch where "sch = SequentialLR (LambdaLR (\<lambda>step. real step / real warmup))
      (CosineAnnealingLR (lr_max - int warmup)) warmup"
  have g: "get_lr_scheduler warmup lr_max = Inr sch"
    using assms by (simp add: get_lr_scheduler_def sch_def)
  have z: "lr_at sch base 0 = Inr 0"
    using assms by (simp add: sch_def)
  have w: "\<forall>t<warmup. lr_at sch base t = Inr (base * (real t / real warmup))"
    by (simp add: sch_def)
  have c: "\<forall>t\<ge>warmup. lr_max \<noteq> int warmup \<longrightarrow>
           lr_at sch base t
             = Inr (base * (1 + cos (pi * real (t - warmup) / real_of_int (lr_max - int warmup))) / 2)"
    by (simp add: sch_def)
  have m: "\<forall>e. epochs train = Some e \<and> 0 < gradient_accumulation_iters train
              \<and> lr_warmup_steps train = warmup
              \<and> lr_max = (case or_inf (max_steps train) of
                            None \<Rightarrow> e * int (len div gradient_accumulation_iters train)
                          | Some m \<Rightarrow> min (e * int (len div gradient_accumulation_iters train)) m)
            \<longrightarrow> steps_per_epoch train len = Inr (int (len div gradient_accumulation_iters train))
               \<and> lr_max_steps train len = Inr lr_max
               \<and> main_scheduler train len = Inr sch"
    using g
    by (auto simp add: steps_per_epoch_def lr_max_steps_def main_scheduler_def split: option.splits)
  from g z w c m show ?thesis by blast
qed

theorem lr_schedule_shape_witness:
  "\<exists>sch. main_scheduler
       \<lparr>save_interval = 1000, log_interval = 1, micro_batch_size = 1,
        gradient_accumulation_iters = 4, lr_warmup_steps = 2, epochs = Some 3,
        max_tokens = None, max_steps = Some 6, max_seq_length = None, max_norm = None,
        learning_rate = 3 / 1000\<rparr> 13 = Inr sch
     \<and> lr_at sch 1 0 = Inr 0
     \<and> lr_at sch 1 1 = Inr (1 / 2)
     \<and> lr_at sch 1 2 = Inr 1
     \<and> lr_at sch 1 6 = Inr 0"
proof -
  let ?train = "\<lparr>save_interval = 1000, log_interval = 1, micro_batch_size = 1,
        gradient_accumulation_iters = 4, lr_warmup_steps = 2, epochs = Some 3,
        max_tokens = None, max_steps = Some 6, max_seq_length = None, max_norm = None,
        learning_rate = 3 / 1000\<rparr>"
  have pos: "0 < (2::nat)" by simp
  from lr_schedule_shape [OF pos, of 6 1 ?train 13]
  obtain sch where
    z: "lr_at sch 1 0 = Inr 0"
    and w: "\<forall>t<2. lr_at sch 1 t = Inr (1 * (real t / real 2))"
    and c: "\<forall>t\<ge>2. (6::int) \<noteq> int 2 \<longrightarrow>
           lr_at sch 1 t = Inr (1 * (1 + cos (pi * real (t - 2) / real_of_int (6 - int 2))) / 2)"
    and m: "\<forall>e. epochs ?train = Some e \<and> 0 < gradient_accumulation_iters ?train
              \<and> lr_warmup_steps ?train = 2
              \<and> 6 = (case or_inf (max_steps ?train) of
                            None \<Rightarrow> e * int (13 div gradient_accumulation_iters ?train)
                          | Some m \<Rightarrow> min (e * int (13 div gradient_accumulation_iters ?train)) m)
            \<longrightarrow> main_scheduler ?train 13 = Inr sch"
    by blast
  have cond: "epochs ?train = Some 3 \<and> 0 < gradient_accumulation_iters ?train
              \<and> lr_warmup_steps ?train = 2
              \<and> 6 = (case or_inf (max_steps ?train) of
                            None \<Rightarrow> 3 * int (13 div gradient_accumulation_iters ?train)
                          | Some m \<Rightarrow> min (3 * int (13 div gradient_accumulation_iters ?train)) m)"
    by (simp add: or_inf_def)
  from m cond have a: "main_scheduler ?train 13 = Inr sch" by blast
  from w have b: "lr_at sch 1 1 = Inr (1 / 2)" by simp
  from c have d: "lr_at sch 1 2 = Inr 1" by simp
  from c have "lr_at sch 1 6 = Inr (1 * (1 + cos (pi * real (6 - 2) / real_of_int (6 - int 2))) / 2)"
    by simp
  then have e: "lr_at sch 1 6 = Inr 0" by simp
  from a z b d e show ?thesis by blast
qed

section \<open>The training loop\<close>

subsection \<open>One iteration\<close>

lemma new_iterator_frame:
  "new_iterator E s = (xs, s') \<Longrightarrow>
   model s' = model s \<and> iter_num s' = iter_num s \<and> step_count s' = step_count s
   \<and> running_loss s' = running_loss s \<and> trace s' = trace s \<and> epoch s' = epoch s
   \<and> remaining s' = remaining s"
  by (auto simp: new_iterator_def Let_def split: if_splits option.splits)

lemma next_batch_frame:
  assumes "next_batch E s = Inr (b, s')"
  shows "model s' = model s \<and> iter_num s' = iter_num s \<and> step_count s' = step_count s
   \<and> running_loss s' = running_loss s \<and> trace s' = trace s"
proof -
  obtain cur s1 where c: "(case remaining s of None \<Rightarrow> new_iterator E s | Some r \<Rightarrow> (r, s)) = (cur, s1)"
    by (cases "case remaining s of None \<Rightarrow> new_iterator E s | Some r \<Rightarrow> (r, s)")
  then have f1: "model s1 = model s \<and> iter_num s1 = iter_num s \<and> step_count s1 = step_count s
      \<and> running_loss s1 = running_loss s \<and> trace s1 = trace s"
    using new_iterator_frame [of E s cur s1] by (cases "remaining s") auto
  obtain fresh s2 where n: "new_iterator E s1 = (fresh, s2)"
    by (cases "new_iterator E s1")
  then have f2: "model s2 = model s1 \<and> iter_num s2 = iter_num s1 \<and> step_count s2 = step_count s1
      \<and> running_loss s2 = running_loss s1 \<and> trace s2 = trace s1"
    using new_iterator_frame [of E s1 fresh s2] by simp
  from assms c n f1 f2 show ?thesis
    by (auto simp: next_batch_def split: list.splits)
qed

lemma validate_result:
  assumes "validate E ev tag s = Inr s'"
  shows "\<exists>k. max_new_tokens ev = Some k
     \<and> s' = s\<lparr>global_rng := fw_validate_rng E (global_rng s),
              trace := trace s @ [(tag, Validating (max_iters ev)),
                                  (tag, Generate instruction (fw_encoded_len E + k))]\<rparr>"
  using assms by (auto simp: validate_def split: if_splits option.splits)

lemma log_phase_result:
  assumes "log_phase E s = Inr s'"
  shows "0 < log_interval (env_train E)
     \<and> s' = s\<lparr>trace := trace s @
          (if log_interval (env_train E) dvd iter_num s
           then [(iter_num s, LogDict (mean (running_loss s)) (iter_num s) (step_count s))]
           else [])\<rparr>"
  using assms
  by (auto simp: log_phase_def mean_def running_compute_def mod_eq_0_iff_dvd split: if_splits)

lemma validate_phase_result:
  assumes "validate_phase E acc s = Inr s'"
  shows "iter_num s' = iter_num s \<and> step_count s' = step_count s \<and> model s' = model s
     \<and> running_loss s' = running_loss s
     \<and> (\<not> acc \<and> interval (env_eval E) dvd step_count s \<longrightarrow>
          (\<exists>t. max_new_tokens (env_eval E) = Some t))
     \<and> trace s' = trace s @
          (if \<not> acc \<and> interval (env_eval E) dvd step_count s
           then [(iter_num s, Validating (max_iters (env_eval E))),
                 (iter_num s, Generate instruction
                    (fw_encoded_len E + the (max_new_tokens (env_eval E))))]
           else [])"
proof (cases "\<not> acc \<and> interval (env_eval E) dvd step_count s")
  case True
  with assms have nz: "interval (env_eval E) \<noteq> 0"
    by (auto simp: validate_phase_def split: if_splits)
  with True assms have "validate E (env_eval E) (iter_num s) s = Inr s'"
    by (auto simp: validate_phase_def mod_eq_0_iff_dvd split: if_splits)
  from validate_result [OF this] True show ?thesis by auto
next
  case False
  with assms have "s' = s"
    by (auto simp: validate_phase_def mod_eq_0_iff_dvd split: if_splits)
  with False show ?thesis by auto
qed

lemma save_phase_result:
  assumes "save_phase E acc s = Inr s'"
  shows "s' = s\<lparr>trace := trace s @
          (if \<not> acc \<and> save_interval (env_train E) dvd step_count s
           then [(iter_num s, Save (checkpoint_path (env_io E) (step_count s)))]
           else [])\<rparr>"
  using assms
  by (auto simp: save_phase_def mod_eq_0_iff_dvd split: if_splits)

lemma fit_iteration_result:
  assumes "fit_iteration E s = Inr s'"
  shows "\<exists>b. 0 < gradient_accumulation_iters (env_train E)
     \<and> 0 < log_interval (env_train E)
     \<and> iter_num s' = iter_num s + 1
     \<and> step_count s' = step_count s
          + (if gradient_accumulation_iters (env_train E) dvd (iter_num s + 1) then 1 else 0)
     \<and> running_loss s' = running_update (gradient_accumulation_iters (env_train E))
          (running_loss s) (fw_forward_loss E (model s) b)
     \<and> (gradient_accumulation_iters (env_train E) dvd (iter_num s + 1)
          \<and> interval (env_eval E) dvd step_count s' \<longrightarrow>
          (\<exists>t. max_new_tokens (env_eval E) = Some t))
     \<and> trace s' = trace s @ map (Pair (iter_num s + 1))
          (expected_events E (iter_num s + 1) (step_count s') (running_loss s') b
             (fw_forward_loss E (model s) b))"
proof -
  define gai where "gai = gradient_accumulation_iters (env_train E)"
  define i where "i = iter_num s + 1"
  from assms obtain b s1 where nb: "next_batch E (s\<lparr>iter_num := iter_num s + 1\<rparr>) = Inr (b, s1)"
    by (auto simp: fit_iteration_def Let_def split: sum.splits)
  from next_batch_frame [OF nb]
  have f1: "model s1 = model s" "iter_num s1 = i" "step_count s1 = step_count s"
    "running_loss s1 = running_loss s" "trace s1 = trace s"
    by (simp_all add: i_def)
  from assms nb have gpos: "0 < gai"
    by (auto simp: fit_iteration_def Let_def gai_def split: if_splits)
  then have gz: "(gradient_accumulation_iters (env_train E) = 0) = False"
    by (simp add: gai_def)
  define acc where "acc = (iter_num s1 mod gai \<noteq> 0)"
  define l where "l = fw_forward_loss E (model s1) b"
  define s2 where "s2 = backward_phase E acc b s1"
  define s3 where "s3 = (if \<not> acc then optimizer_phase E s2 else s2)"
  have unfolded: "fit_iteration E s =
      (case log_phase E s3 of
         Inl e \<Rightarrow> Inl e
       | Inr s4 \<Rightarrow>
           (case validate_phase E acc s4 of
              Inl e \<Rightarrow> Inl e
            | Inr s5 \<Rightarrow> save_phase E acc s5))"
    unfolding fit_iteration_def Let_def nb s3_def s2_def acc_def l_def gai_def
    by (simp only: sum.case prod.case gz if_False)
  with assms obtain s4 s5 where
    lg: "log_phase E s3 = Inr s4" and
    vl: "validate_phase E acc s4 = Inr s5" and
    sv: "save_phase E acc s5 = Inr s'"
    by (auto split: sum.splits)
  have l: "l = fw_forward_loss E (model s) b"
    by (simp add: l_def f1)
  have acc: "acc \<longleftrightarrow> \<not> gai dvd i"
    by (simp add: acc_def f1 mod_eq_0_iff_dvd)
  have s2: "iter_num s2 = i" "step_count s2 = step_count s"
    "running_loss s2 = running_update gai (running_loss s) l"
    "trace s2 = trace s @ [(i, Forward b l), (i, Backward (\<not> gai dvd i) (l / real gai))]"
    using f1 by (simp_all add: s2_def backward_phase_def Let_def acc l_def gai_def)
  have s3: "iter_num s3 = i"
    "step_count s3 = step_count s + (if gai dvd i then 1 else 0)"
    "running_loss s3 = running_update gai (running_loss s) l"
    "trace s3 = trace s @ [(i, Forward b l), (i, Backward (\<not> gai dvd i) (l / real gai))]
       @ (if gai dvd i then [(i, OptimizerStep), (i, ZeroGrad), (i, SchedulerStep),
                               (i, StepCount (step_count s + 1))] else [])"
    using s2 by (simp_all add: s3_def acc optimizer_phase_def)
  from log_phase_result [OF lg]
  have lpos: "0 < log_interval (env_train E)"
    and s4: "s4 = s3\<lparr>trace := trace s3 @
          (if log_interval (env_train E) dvd iter_num s3
           then [(iter_num s3, LogDict (mean (running_loss s3)) (iter_num s3) (step_count s3))]
           else [])\<rparr>"
    by blast+
  have s4f: "iter_num s4 = i" "step_count s4 = step_count s3" "running_loss s4 = running_loss s3"
    by (simp_all add: s4 s3(1))
  have s4t: "trace s4 = trace s3 @
          (if log_interval (env_train E) dvd i
           then [(i, LogDict (mean (running_loss s3)) i (step_count s3))] else [])"
    by (subst s4) (simp add: s3(1))
  from validate_phase_result [OF vl]
  have s5f: "iter_num s5 = i" "step_count s5 = step_count s3" "running_loss s5 = running_loss s3"
    and s5v: "\<not> acc \<and> interval (env_eval E) dvd step_count s3 \<longrightarrow>
          (\<exists>t. max_new_tokens (env_eval E) = Some t)"
    and s5t: "trace s5 = trace s4 @
          (if \<not> acc \<and> interval (env_eval E) dvd step_count s3
           then [(i, Validating (max_iters (env_eval E))),
                 (i, Generate instruction (fw_encoded_len E + the (max_new_tokens (env_eval E))))]
           else [])"
    using s4f by simp_all
  from save_phase_result [OF sv]
  have s': "s' = s5\<lparr>trace := trace s5 @
          (if \<not> acc \<and> save_interval (env_train E) dvd step_count s5
           then [(iter_num s5, Save (checkpoint_path (env_io E) (step_count s5)))]
           else [])\<rparr>" .
  have e1: "iter_num s' = i" by (subst s') (simp add: s5f)
  have e2: "step_count s' = step_count s + (if gai dvd i then 1 else 0)"
    by (subst s') (simp add: s5f s3(2))
  have e3: "running_loss s' = running_update gai (running_loss s) l"
    by (subst s') (simp add: s5f s3(3))
  have e4: "trace s' = trace s @ map (Pair i)
          (expected_events E i (step_count s') (running_loss s') b l)"
    unfolding e2 e3
    by (subst s') (simp add: s5t s4t s3 s5f acc expected_events_def Let_def gai_def [symmetric])
  have e5: "gai dvd i \<and> interval (env_eval E) dvd step_count s' \<longrightarrow>
          (\<exists>t. max_new_tokens (env_eval E) = Some t)"
    using s5v acc e2 s3(2) by simp
  from gpos lpos e1 e2 e3 e4 e5 show ?thesis
    unfolding gai_def i_def l by blast
qed

subsection \<open>Runs of the loop\<close>

lemma after_iterations_add:
  "after_iterations (j + r) E s =
     (case after_iterations j E s of None \<Rightarrow> None | Some s' \<Rightarrow> after_iterations r E s')"
proof (induction j arbitrary: s)
  case 0
  show ?case by simp
next
  case (Suc j)
  show ?case
  proof (cases "fit_cond E s")
    case (Inl e)
    then show ?thesis by simp
  next
    case (Inr c)
    show ?thesis
    proof (cases c)
      case True
      with Inr Suc show ?thesis by (cases "fit_iteration E s") simp_all
    next
      case False
      with Inr show ?thesis by simp
    qed
  qed
qed

lemma after_iterations_Suc_end:
  assumes "after_iterations (Suc k) E s = Some s'"
  shows "\<exists>sa. after_iterations k E s = Some sa \<and> fit_cond E sa = Inr True
           \<and> fit_iteration E sa = Inr s'"
proof -
  from assms after_iterations_add [of k 1 E s]
  obtain sa where sa: "after_iterations k E s = Some sa" and one: "after_iterations 1 E sa = Some s'"
    by (cases "after_iterations k E s") auto
  from one have "fit_cond E sa = Inr True \<and> fit_iteration E sa = Inr s'"
    by (auto split: sum.splits bool.splits)
  with sa show ?thesis by blast
qed

lemma after_iterations_prefix:
  assumes "after_iterations k E s = Some s'" and "j \<le> k"
  shows "\<exists>sj. after_iterations j E s = Some sj \<and> after_iterations (k - j) E sj = Some s'"
proof -
  from assms(2) have "k = j + (k - j)" by simp
  with assms(1) after_iterations_add [of j "k - j" E s] show ?thesis
    by (cases "after_iterations j E s") auto
qed

text \<open>Counting: the iteration number grows by one, the step count at the multiples.\<close>

lemma after_iterations_counts:
  "after_iterations k E s = Some s' \<Longrightarrow>
   iter_num s' = iter_num s + k
   \<and> step_count s' + iter_num s div gradient_accumulation_iters (env_train E)
       = step_count s + (iter_num s + k) div gradient_accumulation_iters (env_train E)"
proof (induction k arbitrary: s')
  case 0
  then show ?case by simp
next
  case (Suc k)
  from after_iterations_Suc_end [OF Suc.prems]
  obtain sa where sa: "after_iterations k E s = Some sa" and it: "fit_iteration E sa = Inr s'"
    by blast
  from Suc.IH [OF sa] have ih: "iter_num sa = iter_num s + k"
    "step_count sa + iter_num s div gradient_accumulation_iters (env_train E)
       = step_count s + (iter_num s + k) div gradient_accumulation_iters (env_train E)"
    by simp_all
  from fit_iteration_result [OF it]
  have r: "0 < gradient_accumulation_iters (env_train E)" "iter_num s' = iter_num sa + 1"
    "step_count s' = step_count sa
       + (if gradient_accumulation_iters (env_train E) dvd (iter_num sa + 1) then 1 else 0)"
    by blast+
  have "Suc (iter_num s + k) div gradient_accumulation_iters (env_train E)
      = (iter_num s + k) div gradient_accumulation_iters (env_train E)
        + (if gradient_accumulation_iters (env_train E) dvd Suc (iter_num s + k) then 1 else 0)"
    by (simp add: div_Suc mod_eq_0_iff_dvd)
  with ih r show ?case by simp
qed

text \<open>The loop only appends to the trace, and tags what it appends with its iteration.\<close>

lemma after_iterations_trace:
  "after_iterations k E s = Some s' \<Longrightarrow>
   \<exists>T. trace s' = trace s @ T \<and> (\<forall>p\<in>set T. iter_num s < fst p \<and> fst p \<le> iter_num s + k)"
proof (induction k arbitrary: s')
  case 0
  then show ?case by simp
next
  case (Suc k)
  from after_iterations_Suc_end [OF Suc.prems]
  obtain sa where sa: "after_iterations k E s = Some sa" and it: "fit_iteration E sa = Inr s'"
    by blast
  from Suc.IH [OF sa] obtain T where T: "trace sa = trace s @ T"
    "\<forall>p\<in>set T. iter_num s < fst p \<and> fst p \<le> iter_num s + k"
    by blast
  from after_iterations_counts [OF sa] have n: "iter_num sa = iter_num s + k" by simp
  from fit_iteration_result [OF it] obtain evs where
    "trace s' = trace sa @ map (Pair (iter_num sa + 1)) evs"
    by blast
  with T n have "trace s' = trace s @ (T @ map (Pair (iter_num s + k + 1)) evs)"
    "\<forall>p\<in>set (T @ map (Pair (iter_num s + k + 1)) evs).
        iter_num s < fst p \<and> fst p \<le> iter_num s + Suc k"
    by auto
  then show ?case by blast
qed

text \<open>
  The events of iteration \<open>i\<close>, read off the trace at any later time, are the events the
  iteration wrote.
\<close>

lemma iteration_events_of_run:
  assumes run: "after_iterations k E s0 = Some s"
    and old: "\<forall>p\<in>set (trace s0). fst p \<le> iter_num s0"
    and i: "iter_num s0 < i" "i \<le> iter_num s0 + k"
  shows "\<exists>sa sb b. after_iterations (i - 1 - iter_num s0) E s0 = Some sa
      \<and> fit_iteration E sa = Inr sb
      \<and> after_iterations (i - iter_num s0) E s0 = Some sb
      \<and> iter_num sa = i - 1 \<and> iter_num sb = i
      \<and> iteration_events i s
          = expected_events E i (step_count sb) (running_loss sb) b (fw_forward_loss E (model sa) b)
      \<and> running_loss sb = running_update (gradient_accumulation_iters (env_train E))
           (running_loss sa) (fw_forward_loss E (model sa) b)
      \<and> trace sb = trace sa @ map (Pair i)
           (expected_events E i (step_count sb) (running_loss sb) b (fw_forward_loss E (model sa) b))
      \<and> filter (\<lambda>p. fst p \<le> i) (trace s) = trace sb"
proof -
  define j where "j = i - iter_num s0"
  from i have j: "j \<le> k" "j = Suc (i - 1 - iter_num s0)" "iter_num s0 + j = i"
    by (simp_all add: j_def)
  from after_iterations_prefix [OF run j(1)]
  obtain sb where sb: "after_iterations j E s0 = Some sb" and rest: "after_iterations (k - j) E sb = Some s"
    by blast
  from sb j(2) have "after_iterations (Suc (i - 1 - iter_num s0)) E s0 = Some sb" by simp
  from after_iterations_Suc_end [OF this]
  obtain sa where sa: "after_iterations (i - 1 - iter_num s0) E s0 = Some sa"
    and it: "fit_iteration E sa = Inr sb"
    by blast
  from after_iterations_counts [OF sa] i have na: "iter_num sa = i - 1" by simp
  from after_iterations_counts [OF sb] j have nb: "iter_num sb = i" by simp
  from fit_iteration_result [OF it] obtain b where
    rl: "running_loss sb = running_update (gradient_accumulation_iters (env_train E))
           (running_loss sa) (fw_forward_loss E (model sa) b)"
    and tb0: "trace sb = trace sa @ map (Pair (iter_num sa + 1))
           (expected_events E (iter_num sa + 1) (step_count sb) (running_loss sb) b
              (fw_forward_loss E (model sa) b))"
    by blast
  have isa: "iter_num sa + 1 = i" using na i by simp
  note tb = tb0 [unfolded isa]
  from after_iterations_trace [OF sa] na i obtain T1 where
    T1: "trace sa = trace s0 @ T1" "\<forall>p\<in>set T1. fst p < i"
    by fastforce
  from after_iterations_trace [OF rest] nb obtain T2 where
    T2: "trace s = trace sb @ T2" "\<forall>p\<in>set T2. i < fst p"
    by fastforce
  from old i have T0: "\<forall>p\<in>set (trace s0). fst p < i" by auto
  let ?evs = "expected_events E i (step_count sb) (running_loss sb) b (fw_forward_loss E (model sa) b)"
  have f0: "filter (\<lambda>p. fst p = i) (trace s0) = []" using T0 by (auto simp: filter_empty_conv)
  have f1: "filter (\<lambda>p. fst p = i) T1 = []" using T1(2) by (auto simp: filter_empty_conv)
  have f2: "filter (\<lambda>p. fst p = i) T2 = []" using T2(2) by (auto simp: filter_empty_conv)
  have f3: "filter (\<lambda>p. fst p = i) (map (Pair i) ?evs) = map (Pair i) ?evs"
    by (simp add: filter_map comp_def)
  have ev: "iteration_events i s = ?evs"
    by (simp add: iteration_events_def T2(1) tb T1(1) f0 f1 f2 f3 comp_def)
  have g0: "filter (\<lambda>p. fst p \<le> i) (trace s0) = trace s0" using T0 by (auto simp: filter_id_conv)
  have g1: "filter (\<lambda>p. fst p \<le> i) T1 = T1" using T1(2) by (auto simp: filter_id_conv)
  have g2: "filter (\<lambda>p. fst p \<le> i) T2 = []" using T2(2) by (auto simp: filter_empty_conv)
  have g3: "filter (\<lambda>p. fst p \<le> i) (map (Pair i) ?evs) = map (Pair i) ?evs"
    by (simp add: filter_map comp_def)
  have up: "filter (\<lambda>p. fst p \<le> i) (trace s) = trace sb"
    by (simp add: T2(1) tb T1(1) g0 g1 g2 g3)
  from sa it sb na nb ev rl tb up j show ?thesis
    unfolding j_def by blast
qed

subsection \<open>Before the loop\<close>

lemma forward_losses_append:
  "forward_losses (xs @ ys) = forward_losses xs @ forward_losses ys"
  by (induction xs rule: forward_losses.induct) simp_all

lemma fast_forward_result:
  "fast_forward k E s = Inr s' \<Longrightarrow>
   model s' = model s \<and> iter_num s' = iter_num s \<and> step_count s' = step_count s
   \<and> running_loss s' = running_loss s
   \<and> (\<exists>bs. length bs = k \<and> trace s' = trace s @ map (\<lambda>b. (0, Skipped b)) bs)"
proof (induction k arbitrary: s)
  case 0
  then show ?case by simp
next
  case (Suc k)
  from Suc.prems obtain b s1 where nb: "next_batch E s = Inr (b, s1)"
    and ff: "fast_forward k E (s1\<lparr>trace := trace s1 @ [(0, Skipped b)]\<rparr>) = Inr s'"
    by (auto split: sum.splits)
  from Suc.IH [OF ff] obtain bs where
    a: "model s' = model s1" "iter_num s' = iter_num s1" "step_count s' = step_count s1"
       "running_loss s' = running_loss s1"
    and b: "length bs = k" "trace s' = (trace s1 @ [(0, Skipped b)]) @ map (\<lambda>b. (0, Skipped b)) bs"
    by auto
  from b have "length (b # bs) = Suc k"
    "trace s' = trace s1 @ map (\<lambda>b. (0, Skipped b)) (b # bs)"
    by simp_all
  with a next_batch_frame [OF nb] show ?case by metis
qed

lemma fit_prologue_result:
  assumes "fit_prologue E resume m n0 c0 g = Inr s0"
  shows "model s0 = m \<and> iter_num s0 = n0 \<and> step_count s0 = c0 \<and> running_loss s0 = []
     \<and> (\<forall>p\<in>set (trace s0). fst p = 0)
     \<and> forward_losses (map snd (trace s0)) = []"
proof -
  let ?init = "\<lparr>model = m, iter_num = n0, step_count = c0, epoch = 0, remaining = None,
      loader_rng = map_option (\<lambda>seed. (seed, 0)) (tl_generator (env_train_dataloader E)),
      global_rng = g, running_loss = [], trace = []\<rparr> :: ('a, 'b) fit_state"
  from assms obtain s1 where
    v: "validate E ((env_eval E)\<lparr>max_iters := 2\<rparr>) 0 ?init = Inr s1"
    and r: "(if resume then fast_forward n0 E s1 else Inr s1) = Inr s0"
    by (auto simp: fit_prologue_def split: if_splits sum.splits)
  from validate_result [OF v] obtain t where
    s1: "s1 = ?init\<lparr>global_rng := fw_validate_rng E (global_rng ?init),
              trace := trace ?init @ [(0, Validating (max_iters ((env_eval E)\<lparr>max_iters := 2\<rparr>))),
                                  (0, Generate instruction (fw_encoded_len E + t))]\<rparr>"
    by blast
  have f1: "model s1 = m" "iter_num s1 = n0" "step_count s1 = c0" "running_loss s1 = []"
    "trace s1 = [(0, Validating 2), (0, Generate instruction (fw_encoded_len E + t))]"
    by (simp_all add: s1)
  show ?thesis
  proof (cases resume)
    case False
    with r have "s0 = s1" by simp
    with f1 show ?thesis by simp
  next
    case True
    with r have "fast_forward n0 E s1 = Inr s0" by simp
    from fast_forward_result [OF this] f1 obtain bs where
      "model s0 = m" "iter_num s0 = n0" "step_count s0 = c0" "running_loss s0 = []"
      "trace s0 = [(0, Validating 2), (0, Generate instruction (fw_encoded_len E + t))]
         @ map (\<lambda>b. (0, Skipped b)) bs"
      by auto
    moreover have "forward_losses (map snd (map (\<lambda>b. (0::nat, Skipped b)) bs)) = []" for bs :: "'b list"
      by (induction bs) simp_all
    ultimately show ?thesis
      by (auto simp: forward_losses_append)
  qed
qed

subsection \<open>The window of the running mean\<close>

lemma running_update_last_n:
  assumes "0 < w"
  shows "running_update w (last_n w xs) x = last_n w (xs @ [x])"
proof (cases "length xs \<le> w")
  case True
  then show ?thesis
    by (simp add: running_update_def last_n_def Let_def)
next
  case False
  then have "length (drop (length xs - w) xs) = w" by simp
  moreover from False assms have "Suc (length xs) - w = Suc (length xs - w)" by arith
  moreover from False assms have "Suc (length xs) - w \<le> length xs" by arith
  ultimately show ?thesis
    using assms by (simp add: running_update_def last_n_def Let_def Suc_diff_le)
qed

lemma forward_losses_expected:
  "forward_losses (expected_events E i sc w b l) = [l]"
  by (simp add: expected_events_def Let_def forward_losses_append)

lemma map_snd_Pair: "map snd (map (Pair i) evs) = evs"
  by (simp add: comp_def)

lemma fit_iteration_window:
  assumes "fit_iteration E s = Inr s'"
    and "running_loss s = last_n (gradient_accumulation_iters (env_train E))
           (forward_losses (map snd (trace s)))"
  shows "running_loss s' = last_n (gradient_accumulation_iters (env_train E))
           (forward_losses (map snd (trace s')))
       \<and> length (forward_losses (map snd (trace s'))) = length (forward_losses (map snd (trace s))) + 1"
proof -
  from fit_iteration_result [OF assms(1)] obtain b where
    g: "0 < gradient_accumulation_iters (env_train E)"
    and rl: "running_loss s' = running_update (gradient_accumulation_iters (env_train E))
          (running_loss s) (fw_forward_loss E (model s) b)"
    and tr: "trace s' = trace s @ map (Pair (iter_num s + 1))
          (expected_events E (iter_num s + 1) (step_count s') (running_loss s') b
             (fw_forward_loss E (model s) b))"
    by blast
  have fl: "forward_losses (map snd (trace s'))
      = forward_losses (map snd (trace s)) @ [fw_forward_loss E (model s) b]"
    by (subst tr) (simp only: map_append map_snd_Pair forward_losses_append forward_losses_expected)
  from rl assms(2) g show ?thesis
    by (simp add: fl running_update_last_n)
qed

lemma after_iterations_window:
  "after_iterations k E s = Some s' \<Longrightarrow>
   running_loss s = last_n (gradient_accumulation_iters (env_train E))
           (forward_losses (map snd (trace s))) \<Longrightarrow>
   running_loss s' = last_n (gradient_accumulation_iters (env_train E))
           (forward_losses (map snd (trace s')))
   \<and> length (forward_losses (map snd (trace s'))) = length (forward_losses (map snd (trace s))) + k"
proof (induction k arbitrary: s')
  case 0
  then show ?case by simp
next
  case (Suc k)
  from after_iterations_Suc_end [OF Suc.prems(1)]
  obtain sa where sa: "after_iterations k E s = Some sa" and it: "fit_iteration E sa = Inr s'"
    by blast
  from Suc.IH [OF sa Suc.prems(2)] fit_iteration_window [OF it] show ?case by simp
qed

text \<open>
  When the loop ends without raising, it ends in a state that some number of iterations
  leads to, and in which the condition of the \<open>while\<close> is false.
\<close>

lemma fit_loop_result:
  "fit_loop bound E s = Some (Inr s') \<Longrightarrow>
   \<exists>k. k < bound \<and> after_iterations k E s = Some s' \<and> fit_cond E s' = Inr False"
proof (induction bound arbitrary: s)
  case 0
  then show ?case by simp
next
  case (Suc bound)
  show ?case
  proof (cases "fit_cond E s")
    case (Inl e)
    with Suc.prems show ?thesis by simp
  next
    case (Inr c)
    show ?thesis
    proof (cases c)
      case False
      with Inr Suc.prems have "s' = s" by simp
      with Inr False have "after_iterations 0 E s = Some s' \<and> fit_cond E s' = Inr False"
        by simp
      then show ?thesis by blast
    next
      case True
      with Inr Suc.prems obtain s1 where f: "fit_iteration E s = Inr s1"
        and l: "fit_loop bound E s1 = Some (Inr s')"
        by (auto split: sum.splits)
      from Suc.IH [OF l] obtain k where k: "k < bound" "after_iterations k E s1 = Some s'"
        "fit_cond E s' = Inr False"
        by blast
      with Inr True f have "Suc k < Suc bound \<and> after_iterations (Suc k) E s = Some s'
          \<and> fit_cond E s' = Inr False"
        by simp
      then show ?thesis by blast
    qed
  qed
qed

subsection \<open>The claims about the loop\<close>

lemma prologue_old_tags:
  assumes "fit_prologue E resume m n0 c0 g = Inr s0"
  shows "\<forall>p\<in>set (trace s0). fst p \<le> iter_num s0"
  using fit_prologue_result [OF assms] by simp


text \<open>
  C4. In any run, new or resumed, an iteration of the loop validates exactly when it
  completes an optimizer step and the step count it reaches is a multiple of
  \<open>eval.interval\<close>; validation is the loss loop over \<open>eval.max_iters\<close> batches
  followed by sampling from the fixed instruction, up to \<open>eval.max_new_tokens\<close> tokens
  beyond the encoded prompt. The iteration saves the state, under
  \<open>out_dir/step-NNNNNN.pth\<close> for the step count reached, exactly when it completes an
  optimizer step and that count is a multiple of \<open>train.save_interval\<close>. An iteration
  that accumulates (its number is no multiple of \<open>gai\<close>, its backward pass runs
  without synchronisation) does neither. The call of \<open>validate\<close> before the loop, the
  sanity check, belongs to no iteration.
\<close>

theorem validation_and_checkpoint_schedule:
  assumes "fit_prologue E resume m n0 c0 g = Inr s0"
    and "after_iterations k E s0 = Some s"
    and "n0 < i" and "i \<le> n0 + k"
  shows "let gai = gradient_accumulation_iters (env_train E); evs = iteration_events i s in
     ((\<exists>x. Validating x \<in> set evs) \<longleftrightarrow>
        (\<exists>n. StepCount n \<in> set evs \<and> interval (env_eval E) dvd n))
     \<and> (\<forall>x. Validating x \<in> set evs \<longrightarrow>
           x = max_iters (env_eval E)
           \<and> (\<exists>t. max_new_tokens (env_eval E) = Some t
                 \<and> Generate instruction (fw_encoded_len E + t) \<in> set evs))
     \<and> (\<forall>p. Save p \<in> set evs \<longleftrightarrow>
           (\<exists>n. StepCount n \<in> set evs \<and> save_interval (env_train E) dvd n
                \<and> p = path_join (out_dir (env_io E)) (''step-'' @ format_06d n @ ''.pth'')))
     \<and> ((\<exists>n. StepCount n \<in> set evs) \<longleftrightarrow> OptimizerStep \<in> set evs)
     \<and> ((\<exists>n. StepCount n \<in> set evs) \<longleftrightarrow> gai dvd i)
     \<and> (\<not> gai dvd i \<longrightarrow>
           (\<exists>x. Backward True x \<in> set evs) \<and> (\<forall>x. Validating x \<notin> set evs)
           \<and> (\<forall>p n. Generate p n \<notin> set evs) \<and> (\<forall>p. Save p \<notin> set evs))"
proof -
  define gai where "gai = gradient_accumulation_iters (env_train E)"
  from fit_prologue_result [OF assms(1)]
  have s0: "iter_num s0 = n0" by simp
  have i: "iter_num s0 < i" "i \<le> iter_num s0 + k" using assms(3,4) s0 by simp_all
  from iteration_events_of_run [OF assms(2) prologue_old_tags [OF assms(1)] i]
  obtain sa sb b where
    it: "fit_iteration E sa = Inr sb"
    and na: "iter_num sa = i - 1"
    and ev: "iteration_events i s
          = expected_events E i (step_count sb) (running_loss sb) b (fw_forward_loss E (model sa) b)"
    by blast
  have isa: "iter_num sa + 1 = i" using na i by simp
  from fit_iteration_result [OF it]
  have tok: "gai dvd i \<and> interval (env_eval E) dvd step_count sb \<longrightarrow>
      (\<exists>t. max_new_tokens (env_eval E) = Some t)"
    unfolding gai_def isa by blast
  define sc where "sc = step_count sb"
  define w where "w = running_loss sb"
  define l where "l = fw_forward_loss E (model sa) b"
  have evs: "iteration_events i s = expected_events E i sc w b l"
    using ev by (simp add: sc_def w_def l_def)
  have tok': "gai dvd i \<and> interval (env_eval E) dvd sc \<longrightarrow>
      (\<exists>t. max_new_tokens (env_eval E) = Some t)"
    using tok by (simp add: sc_def)
  have a: "(\<exists>x. Validating x \<in> set (iteration_events i s)) \<longleftrightarrow>
        (\<exists>n. StepCount n \<in> set (iteration_events i s) \<and> interval (env_eval E) dvd n)"
    unfolding evs by (auto simp add: expected_events_def Let_def gai_def [symmetric])
  have b: "\<forall>x. Validating x \<in> set (iteration_events i s) \<longrightarrow>
           x = max_iters (env_eval E)
           \<and> (\<exists>t. max_new_tokens (env_eval E) = Some t
                 \<and> Generate instruction (fw_encoded_len E + t) \<in> set (iteration_events i s))"
    unfolding evs using tok'
    by (auto simp add: expected_events_def Let_def gai_def [symmetric])
  have c: "\<forall>p. Save p \<in> set (iteration_events i s) \<longleftrightarrow>
           (\<exists>n. StepCount n \<in> set (iteration_events i s) \<and> save_interval (env_train E) dvd n
                \<and> p = path_join (out_dir (env_io E)) (''step-'' @ format_06d n @ ''.pth''))"
    unfolding evs
    by (auto simp add: expected_events_def Let_def gai_def [symmetric] checkpoint_path_def)
  have d: "((\<exists>n. StepCount n \<in> set (iteration_events i s)) \<longleftrightarrow> OptimizerStep \<in> set (iteration_events i s))
     \<and> ((\<exists>n. StepCount n \<in> set (iteration_events i s)) \<longleftrightarrow> gai dvd i)"
    unfolding evs by (auto simp add: expected_events_def Let_def gai_def [symmetric])
  have e: "\<not> gai dvd i \<longrightarrow>
           (\<exists>x. Backward True x \<in> set (iteration_events i s))
           \<and> (\<forall>x. Validating x \<notin> set (iteration_events i s))
           \<and> (\<forall>p n. Generate p n \<notin> set (iteration_events i s))
           \<and> (\<forall>p. Save p \<notin> set (iteration_events i s))"
    unfolding evs by (auto simp add: expected_events_def Let_def gai_def [symmetric])
  from a b c d e show ?thesis
    unfolding Let_def gai_def by blast
qed

text \<open>
  C5. In any run, an iteration hands metrics to the logger exactly when its number is a
  multiple of \<open>train.log_interval\<close>, and the \<open>loss\<close> among them is the mean of the
  losses of the last \<open>gai\<close> micro-batches trained on, the one of this iteration being
  the latest (of all of them while the run has trained on fewer than \<open>gai\<close>).
\<close>

theorem logged_loss_is_running_mean:
  assumes "fit_prologue E resume m n0 c0 g = Inr s0"
    and "after_iterations k E s0 = Some s"
    and "n0 < i" and "i \<le> n0 + k"
  shows "let gai = gradient_accumulation_iters (env_train E); evs = iteration_events i s in
     ((\<exists>x a c. LogDict x a c \<in> set evs) \<longleftrightarrow> log_interval (env_train E) dvd i)
     \<and> (\<forall>x a c. LogDict x a c \<in> set evs \<longrightarrow>
           x = mean (last_n gai (losses_upto i s)) \<and> a = i)
     \<and> length (losses_upto i s) = i - n0
     \<and> length (last_n gai (losses_upto i s)) = min gai (i - n0)
     \<and> (\<exists>b. Forward b (last (losses_upto i s)) \<in> set evs)"
proof -
  define gai where "gai = gradient_accumulation_iters (env_train E)"
  from fit_prologue_result [OF assms(1)]
  have s0: "iter_num s0 = n0" "running_loss s0 = []" "forward_losses (map snd (trace s0)) = []"
    by simp_all
  have i: "iter_num s0 < i" "i \<le> iter_num s0 + k" using assms(3,4) s0 by simp_all
  from iteration_events_of_run [OF assms(2) prologue_old_tags [OF assms(1)] i]
  obtain sa sb b where
    it: "fit_iteration E sa = Inr sb"
    and sb: "after_iterations (i - iter_num s0) E s0 = Some sb"
    and ev: "iteration_events i s
          = expected_events E i (step_count sb) (running_loss sb) b (fw_forward_loss E (model sa) b)"
    and tb: "trace sb = trace sa @ map (Pair i)
           (expected_events E i (step_count sb) (running_loss sb) b (fw_forward_loss E (model sa) b))"
    and up: "filter (\<lambda>p. fst p \<le> i) (trace s) = trace sb"
    by blast
  have w0: "running_loss s0 = last_n gai (forward_losses (map snd (trace s0)))"
    using s0 by (simp add: last_n_def)
  from after_iterations_window [OF sb w0 [unfolded gai_def]] s0
  have win: "running_loss sb = last_n gai (forward_losses (map snd (trace sb)))"
    and len: "length (forward_losses (map snd (trace sb))) = i - n0"
    by (simp_all add: gai_def)
  have lu: "losses_upto i s = forward_losses (map snd (trace sb))"
    by (simp add: losses_upto_def up)
  define l where "l = fw_forward_loss E (model sa) b"
  have lst: "last (losses_upto i s) = l"
    unfolding lu tb
    by (simp only: map_append map_snd_Pair forward_losses_append forward_losses_expected l_def)
       simp
  have evs: "iteration_events i s
      = expected_events E i (step_count sb) (last_n gai (losses_upto i s)) b l"
    using ev win lu by (simp add: l_def)
  have a: "(\<exists>x a c. LogDict x a c \<in> set (iteration_events i s)) \<longleftrightarrow> log_interval (env_train E) dvd i"
    unfolding evs by (auto simp add: expected_events_def Let_def)
  have b: "\<forall>x a c. LogDict x a c \<in> set (iteration_events i s) \<longrightarrow>
           x = mean (last_n gai (losses_upto i s)) \<and> a = i"
    by (subst (asm) evs | subst evs)+ (auto simp add: expected_events_def Let_def split: if_splits)
  have c: "length (losses_upto i s) = i - n0"
    using len lu by simp
  have d: "length (last_n gai (losses_upto i s)) = min gai (i - n0)"
    unfolding last_n_def length_drop c by arith
  have e: "\<exists>b. Forward b (last (losses_upto i s)) \<in> set (iteration_events i s)"
    unfolding lst by (subst evs) (auto simp add: expected_events_def Let_def)
  from a b c d e show ?thesis
    unfolding Let_def gai_def by blast
qed

subsection \<open>The small run\<close>

lemma example_prologue: "fit_prologue example_env False 0 0 0 (1337, 0) = Inr example_start"
  by code_simp

lemma example_run: "after_iterations 2 example_env example_start = Some example_end"
  by code_simp

lemma example_gai: "gradient_accumulation_iters (env_train example_env) = 2"
  by (simp add: example_env_def)

lemma example_second_iteration:
  "iteration_events 2 example_end
     = [Forward 20 20, Backward False 10, OptimizerStep, ZeroGrad, SchedulerStep, StepCount 1,
        LogDict 15 2 1, Validating 2, Generate instruction 120, Save ''out/full/step-000001.pth'']"
  by (simp add: iteration_events_def example_end_def)


theorem validation_and_checkpoint_schedule_witness:
  "(\<exists>x. Validating x \<in> set (iteration_events 2 example_end))
   \<and> Save (path_join ''out/full'' (''step-'' @ format_06d 1 @ ''.pth''))
        \<in> set (iteration_events 2 example_end)
   \<and> (\<forall>x. Validating x \<notin> set (iteration_events 1 example_end))
   \<and> (\<forall>p. Save p \<notin> set (iteration_events 1 example_end))"
proof -
  have a: "0 < (2::nat)" "(2::nat) \<le> 0 + 2" "0 < (1::nat)" "(1::nat) \<le> 0 + 2" by simp_all
  note t2 = validation_and_checkpoint_schedule [OF example_prologue example_run a(1) a(2)]
  note t1 = validation_and_checkpoint_schedule [OF example_prologue example_run a(3) a(4)]
  have sc: "StepCount 1 \<in> set (iteration_events 2 example_end)"
    by (simp add: example_second_iteration)
  have iv: "interval (env_eval example_env) = 1" "save_interval (env_train example_env) = 1"
    "out_dir (env_io example_env) = ''out/full''"
    by (simp_all add: example_env_def)
  from t2 have v: "(\<exists>x. Validating x \<in> set (iteration_events 2 example_end)) \<longleftrightarrow>
        (\<exists>n. StepCount n \<in> set (iteration_events 2 example_end) \<and> interval (env_eval example_env) dvd n)"
    and s: "\<forall>p. Save p \<in> set (iteration_events 2 example_end) \<longleftrightarrow>
           (\<exists>n. StepCount n \<in> set (iteration_events 2 example_end)
                \<and> save_interval (env_train example_env) dvd n
                \<and> p = path_join (out_dir (env_io example_env)) (''step-'' @ format_06d n @ ''.pth''))"
    unfolding Let_def by blast+
  from v sc iv have c1: "\<exists>x. Validating x \<in> set (iteration_events 2 example_end)"
    by auto
  from s sc iv have c2: "Save (path_join ''out/full'' (''step-'' @ format_06d 1 @ ''.pth''))
        \<in> set (iteration_events 2 example_end)"
    by auto
  from t1 have c3: "(\<forall>x. Validating x \<notin> set (iteration_events 1 example_end))
      \<and> (\<forall>p. Save p \<notin> set (iteration_events 1 example_end))"
    by (simp add: Let_def example_gai)
  from c1 c2 c3 show ?thesis by blast
qed

theorem logged_loss_is_running_mean_witness:
  "LogDict 15 2 1 \<in> set (iteration_events 2 example_end)
   \<and> mean (last_n 2 (losses_upto 2 example_end)) = 15
   \<and> last (losses_upto 2 example_end) = 20
   \<and> length (losses_upto 2 example_end) = 2"
proof -
  have a: "0 < (2::nat)" "(2::nat) \<le> 0 + 2" by simp_all
  note t = logged_loss_is_running_mean [OF example_prologue example_run a]
  have lg: "LogDict 15 2 1 \<in> set (iteration_events 2 example_end)"
    by (simp add: example_second_iteration)
  from t have m: "\<forall>x a c. LogDict x a c \<in> set (iteration_events 2 example_end) \<longrightarrow>
           x = mean (last_n 2 (losses_upto 2 example_end)) \<and> a = 2"
    and n: "length (losses_upto 2 example_end) = 2 - 0"
    and f: "\<exists>b. Forward b (last (losses_upto 2 example_end)) \<in> set (iteration_events 2 example_end)"
    unfolding Let_def example_gai by blast+
  from m lg have c1: "mean (last_n 2 (losses_upto 2 example_end)) = 15"
    by fastforce
  from f have c2: "last (losses_upto 2 example_end) = 20"
    by (simp add: example_second_iteration)
  from lg c1 c2 n show ?thesis by simp
qed

section \<open>Resuming a run\<close>

subsection \<open>States that agree on what the loop goes on from\<close>

lemma forward_batches_append:
  "forward_batches (xs @ ys) = forward_batches xs @ forward_batches ys"
  by (induction xs rule: forward_batches.induct) simp_all

lemma consumed_after_append:
  "consumed_after n (s\<lparr>trace := trace s @ evs\<rparr>)
     = consumed_after n s @ forward_batches (map snd (filter (\<lambda>p. n < fst p) evs))"
  by (simp add: consumed_after_def forward_batches_append)

lemma consumed_after_frame [simp]:
  "consumed_after n (s\<lparr>model := m\<rparr>) = consumed_after n s"
  "consumed_after n (s\<lparr>iter_num := i\<rparr>) = consumed_after n s"
  "consumed_after n (s\<lparr>step_count := c\<rparr>) = consumed_after n s"
  "consumed_after n (s\<lparr>epoch := e\<rparr>) = consumed_after n s"
  "consumed_after n (s\<lparr>remaining := rm\<rparr>) = consumed_after n s"
  "consumed_after n (s\<lparr>loader_rng := lg\<rparr>) = consumed_after n s"
  "consumed_after n (s\<lparr>global_rng := g\<rparr>) = consumed_after n s"
  "consumed_after n (s\<lparr>running_loss := w\<rparr>) = consumed_after n s"
  by (simp_all add: consumed_after_def)





lemma own_shuffle_iter [simp]: "own_shuffle E (s\<lparr>iter_num := i\<rparr>) = own_shuffle E s"
  by (simp add: own_shuffle_def)







lemma own_shuffle_cong:
  "loader_rng s' = loader_rng s \<Longrightarrow> own_shuffle E s' = own_shuffle E s"
  by (simp add: own_shuffle_def)

subsection \<open>The loop and the fast-forward on such states\<close>






lemma same_place_sym: "same_place a b \<Longrightarrow> same_place b a"
  by (simp add: same_place_def)







subsection \<open>A resumed run against the run that was not interrupted\<close>











end
